theory Spec2Isabelle
  imports Complex_Main
begin

section \<open>Common conventions\<close>

text \<open>
  The edge tier is Python. Every method of a component is modelled as a function that
  takes the component's fields (a record) and returns the outcome of the call together
  with the fields after the call: \<open>Inr v\<close> when the method returns \<open>v\<close>,
  \<open>Inl e\<close> when it raises \<open>e\<close>. Python floats are modelled as mathematical
  reals (no rounding, no NaN, no infinities); Python ints as \<open>int\<close> or, where the
  source keeps them non-negative (list indices, call counters), as \<open>nat\<close>.
\<close>

datatype error =
    RuntimeError
  | ValueError
  | ConnectionError
  | TimeoutError
  | ValidationError
  | AttributeError

type_synonym 'a outcome = "error + 'a"

section \<open>MAVLink bridge (edge/mavlink\_bridge)\<close>

datatype AutopilotState =
    DISCONNECTED | CONNECTING | AP_CONNECTED | ARMED | FLYING | LANDING | LANDED

record MavlinkCommand =
  command_type :: string
  parameters :: "string \<rightharpoonup> real"
  cmd_target_system :: int
  cmd_target_component :: int

record TelemetryData =
  tel_latitude :: real
  tel_longitude :: real
  tel_altitude :: real
  tel_heading :: real
  tel_ground_speed :: real
  tel_vertical_speed :: real
  tel_battery_voltage :: real
  tel_battery_remaining :: int
  tel_gps_fix_type :: int
  tel_satellites_visible :: int

text \<open>\<open>TelemetryData(...)\<close>: the pydantic model checks its field bounds.\<close>

definition new_TelemetryData ::
  "real \<Rightarrow> real \<Rightarrow> real \<Rightarrow> real \<Rightarrow> real \<Rightarrow> real \<Rightarrow> real \<Rightarrow> int \<Rightarrow> int \<Rightarrow> int
     \<Rightarrow> TelemetryData outcome" where
  "new_TelemetryData latitude longitude altitude heading ground_speed vertical_speed
       battery_voltage battery_remaining gps_fix_type satellites_visible =
     (if 0 \<le> heading \<and> heading \<le> 360 \<and> 0 \<le> ground_speed \<and> 0 \<le> battery_voltage
         \<and> 0 \<le> battery_remaining \<and> battery_remaining \<le> 100
         \<and> 0 \<le> gps_fix_type \<and> 0 \<le> satellites_visible
      then Inr \<lparr>tel_latitude = latitude, tel_longitude = longitude, tel_altitude = altitude,
                tel_heading = heading, tel_ground_speed = ground_speed,
                tel_vertical_speed = vertical_speed, tel_battery_voltage = battery_voltage,
                tel_battery_remaining = battery_remaining, tel_gps_fix_type = gps_fix_type,
                tel_satellites_visible = satellites_visible\<rparr>
      else Inl ValidationError)"

subsection \<open>The pymavlink connection\<close>

text \<open>
  The connection object belongs to pymavlink, not to this repository. It is modelled by
  what the bridge observes of it: the messages that are still to arrive on the link, in
  arrival order; the autopilot's table of mode names; and the log of what the bridge has
  sent. A blocking \<open>recv_match\<close> for a message type skips messages of other types and
  returns the first one of the requested type, or \<open>None\<close> (time-out) when none is left.
  The waits for the motors (\<open>motors_armed_wait\<close>, \<open>motors_disarmed_wait\<close>) return.
\<close>

datatype mav_message =
    GLOBAL_POSITION_INT (lat: int) (lon: int) (relative_alt: int) (hdg: int) (vx: int) (vz: int)
  | SYS_STATUS (voltage_battery: int) (msg_battery_remaining: int)
  | GPS_RAW_INT (fix_type: int) (msg_satellites_visible: int)
  | HEARTBEAT

datatype message_type = T_GLOBAL_POSITION_INT | T_SYS_STATUS | T_GPS_RAW_INT | T_HEARTBEAT

fun type_of_message :: "mav_message \<Rightarrow> message_type" where
  "type_of_message (GLOBAL_POSITION_INT _ _ _ _ _ _) = T_GLOBAL_POSITION_INT"
| "type_of_message (SYS_STATUS _ _) = T_SYS_STATUS"
| "type_of_message (GPS_RAW_INT _ _) = T_GPS_RAW_INT"
| "type_of_message HEARTBEAT = T_HEARTBEAT"

text \<open>
  What the bridge sends. \<open>MissionItemInt x y z\<close> is \<open>mission_item_int_send\<close> with the
  fixed arguments of \<open>goto\<close> (sequence 0, frame \<open>GLOBAL_RELATIVE_ALT_INT\<close>, command
  \<open>NAV_WAYPOINT\<close>, current 2, autocontinue 1, four zero parameters);
  \<open>CommandLongTakeoff alt\<close> is \<open>command_long_send\<close> with \<open>MAV_CMD_NAV_TAKEOFF\<close>
  and the altitude as seventh parameter.
\<close>

datatype stream_id = MAV_DATA_STREAM_POSITION | MAV_DATA_STREAM_EXTENDED_STATUS

datatype mav_sent =
    RequestDataStream stream_id int int
  | ArducopterArm
  | ArducopterDisarm
  | SetMode int
  | MissionItemInt int int real
  | CommandLongTakeoff real

record mavfile =
  incoming :: "mav_message list"
  mode_mapping :: "string \<rightharpoonup> int"
  sent :: "mav_sent list"

definition recv_match :: "message_type \<Rightarrow> mavfile \<Rightarrow> mav_message option \<times> mavfile" where
  "recv_match wanted connection =
     (case dropWhile (\<lambda>m. type_of_message m \<noteq> wanted) (incoming connection) of
        [] \<Rightarrow> (None, connection\<lparr>incoming := []\<rparr>)
      | m # rest \<Rightarrow> (Some m, connection\<lparr>incoming := rest\<rparr>))"

definition send :: "mav_sent \<Rightarrow> mavfile \<Rightarrow> mavfile" where
  "send message connection = connection\<lparr>sent := sent connection @ [message]\<rparr>"

subsection \<open>The bridge\<close>

definition COORDINATE_SCALE :: real where "COORDINATE_SCALE = 1 / 10 ^ 7"
definition HEADING_SCALE :: real where "HEADING_SCALE = 100.0"
definition SPEED_SCALE :: real where "SPEED_SCALE = 100.0"
definition DATA_STREAM_RATE_HZ :: int where "DATA_STREAM_RATE_HZ = 4"
definition VOLTAGE_SCALE :: real where "VOLTAGE_SCALE = 1000.0"

record MavlinkBridge =
  connection_string :: string
  baud_rate :: int
  connection :: "mavfile option"
  bridge_state :: AutopilotState

definition MavlinkBridge_init :: "string \<Rightarrow> int \<Rightarrow> MavlinkBridge" where
  "MavlinkBridge_init uri baud =
     \<lparr>connection_string = uri, baud_rate = baud, connection = None,
      bridge_state = DISCONNECTED\<rparr>"

definition require_connection :: "MavlinkBridge \<Rightarrow> unit outcome" where
  "require_connection self =
     (if connection self = None \<or> bridge_state self = DISCONNECTED then Inl ConnectionError
      else Inr ())"

definition get_connection :: "MavlinkBridge \<Rightarrow> mavfile outcome" where
  "get_connection self =
     (case connection self of None \<Rightarrow> Inl ConnectionError | Some c \<Rightarrow> Inr c)"

text \<open>
  \<open>connect\<close>: \<open>opened\<close> is the connection \<open>mavlink_connection\<close> returns (\<open>None\<close>
  when it raises), \<open>heartbeat\<close> tells whether \<open>wait_heartbeat\<close> returns normally.
\<close>

definition request_data_streams :: "MavlinkBridge \<Rightarrow> unit outcome \<times> MavlinkBridge" where
  "request_data_streams self =
     (case get_connection self of
        Inl e \<Rightarrow> (Inl e, self)
      | Inr c \<Rightarrow>
          (Inr (),
           self\<lparr>connection := Some
             (send (RequestDataStream MAV_DATA_STREAM_EXTENDED_STATUS DATA_STREAM_RATE_HZ 1)
               (send (RequestDataStream MAV_DATA_STREAM_POSITION DATA_STREAM_RATE_HZ 1) c))\<rparr>))"

definition connect ::
  "MavlinkBridge \<Rightarrow> mavfile option \<Rightarrow> bool \<Rightarrow> unit outcome \<times> MavlinkBridge" where
  "connect self opened heartbeat =
     (let self1 = self\<lparr>bridge_state := CONNECTING\<rparr> in
      case opened of
        None \<Rightarrow> (Inl ConnectionError, self1\<lparr>bridge_state := DISCONNECTED\<rparr>)
      | Some c \<Rightarrow>
          (let self2 = self1\<lparr>connection := Some c\<rparr> in
           if \<not> heartbeat then (Inl ConnectionError, self2\<lparr>bridge_state := DISCONNECTED\<rparr>)
           else request_data_streams (self2\<lparr>bridge_state := AP_CONNECTED\<rparr>)))"

definition disconnect :: "MavlinkBridge \<Rightarrow> MavlinkBridge" where
  "disconnect self =
     (let self1 = (if connection self \<noteq> None then self\<lparr>connection := None\<rparr> else self)
      in self1\<lparr>bridge_state := DISCONNECTED\<rparr>)"

definition get_telemetry :: "MavlinkBridge \<Rightarrow> TelemetryData outcome \<times> MavlinkBridge" where
  "get_telemetry self =
     (case require_connection self of
        Inl e \<Rightarrow> (Inl e, self)
      | Inr _ \<Rightarrow>
     (case get_connection self of
        Inl e \<Rightarrow> (Inl e, self)
      | Inr c0 \<Rightarrow>
     (case recv_match T_GLOBAL_POSITION_INT c0 of
        (None, c1) \<Rightarrow> (Inl TimeoutError, self\<lparr>connection := Some c1\<rparr>)
      | (Some position, c1) \<Rightarrow>
     (case recv_match T_SYS_STATUS c1 of
        (None, c2) \<Rightarrow> (Inl TimeoutError, self\<lparr>connection := Some c2\<rparr>)
      | (Some system_status, c2) \<Rightarrow>
     (case recv_match T_GPS_RAW_INT c2 of
        (None, c3) \<Rightarrow> (Inl TimeoutError, self\<lparr>connection := Some c3\<rparr>)
      | (Some gps_raw, c3) \<Rightarrow>
          (new_TelemetryData
             (real_of_int (lat position) * COORDINATE_SCALE)
             (real_of_int (lon position) * COORDINATE_SCALE)
             (real_of_int (relative_alt position) / SPEED_SCALE)
             (real_of_int (hdg position) / HEADING_SCALE)
             (max 0.0 (real_of_int (vx position) / SPEED_SCALE))
             (real_of_int (vz position) / SPEED_SCALE)
             (real_of_int (voltage_battery system_status) / VOLTAGE_SCALE)
             (msg_battery_remaining system_status)
             (fix_type gps_raw)
             (msg_satellites_visible gps_raw),
           self\<lparr>connection := Some c3\<rparr>))))))"

definition arm :: "MavlinkBridge \<Rightarrow> unit outcome \<times> MavlinkBridge" where
  "arm self =
     (case require_connection self of
        Inl e \<Rightarrow> (Inl e, self)
      | Inr _ \<Rightarrow>
     (case get_connection self of
        Inl e \<Rightarrow> (Inl e, self)
      | Inr c \<Rightarrow>
          (Inr (), self\<lparr>connection := Some (send ArducopterArm c), bridge_state := ARMED\<rparr>)))"

definition disarm :: "MavlinkBridge \<Rightarrow> unit outcome \<times> MavlinkBridge" where
  "disarm self =
     (case require_connection self of
        Inl e \<Rightarrow> (Inl e, self)
      | Inr _ \<Rightarrow>
     (case get_connection self of
        Inl e \<Rightarrow> (Inl e, self)
      | Inr c \<Rightarrow>
          (Inr (),
           self\<lparr>connection := Some (send ArducopterDisarm c), bridge_state := AP_CONNECTED\<rparr>)))"

definition set_mode :: "MavlinkBridge \<Rightarrow> string \<Rightarrow> unit outcome \<times> MavlinkBridge" where
  "set_mode self mode =
     (case require_connection self of
        Inl e \<Rightarrow> (Inl e, self)
      | Inr _ \<Rightarrow>
     (case get_connection self of
        Inl e \<Rightarrow> (Inl e, self)
      | Inr c \<Rightarrow>
     (case mode_mapping c mode of
        None \<Rightarrow> (Inl ValueError, self)
      | Some mode_id \<Rightarrow> (Inr (), self\<lparr>connection := Some (send (SetMode mode_id) c)\<rparr>))))"

text \<open>\<open>int(x)\<close> on a float truncates towards zero.\<close>

definition int_of_float :: "real \<Rightarrow> int" where
  "int_of_float x = (if 0 \<le> x then \<lfloor>x\<rfloor> else \<lceil>x\<rceil>)"

definition goto :: "MavlinkBridge \<Rightarrow> real \<Rightarrow> real \<Rightarrow> real \<Rightarrow> unit outcome \<times> MavlinkBridge" where
  "goto self latitude longitude altitude =
     (case require_connection self of
        Inl e \<Rightarrow> (Inl e, self)
      | Inr _ \<Rightarrow>
     (case get_connection self of
        Inl e \<Rightarrow> (Inl e, self)
      | Inr c \<Rightarrow>
          (Inr (),
           self\<lparr>connection := Some
                  (send (MissionItemInt (int_of_float (latitude / COORDINATE_SCALE))
                           (int_of_float (longitude / COORDINATE_SCALE)) altitude) c),
                bridge_state := FLYING\<rparr>)))"

definition takeoff :: "MavlinkBridge \<Rightarrow> real \<Rightarrow> unit outcome \<times> MavlinkBridge" where
  "takeoff self altitude =
     (case require_connection self of
        Inl e \<Rightarrow> (Inl e, self)
      | Inr _ \<Rightarrow>
     (case get_connection self of
        Inl e \<Rightarrow> (Inl e, self)
      | Inr c \<Rightarrow>
          (Inr (),
           self\<lparr>connection := Some (send (CommandLongTakeoff altitude) c),
                bridge_state := FLYING\<rparr>)))"

definition land :: "MavlinkBridge \<Rightarrow> unit outcome \<times> MavlinkBridge" where
  "land self =
     (case set_mode self ''LAND'' of
        (Inl e, self1) \<Rightarrow> (Inl e, self1)
      | (Inr _, self1) \<Rightarrow> (Inr (), self1\<lparr>bridge_state := LANDING\<rparr>))"

text \<open>\<open>str(n)\<close> for an integer: its decimal digits, with a minus sign when negative.\<close>

fun digits :: "nat \<Rightarrow> string" where
  "digits n =
     (if n < 10 then [char_of (48 + n)] else digits (n div 10) @ [char_of (48 + n mod 10)])"

definition str_of_int :: "int \<Rightarrow> string" where
  "str_of_int i = (if i < 0 then CHR ''-'' # digits (nat (- i)) else digits (nat i))"

text \<open>
  The handlers of \<open>send_command\<close>. The values of \<open>parameters\<close> are floats
  (\<open>dict[str, float]\<close>), so the \<open>SET_MODE\<close> handler always takes the
  \<open>str(int(mode))\<close> branch.
\<close>

definition handle_arm :: "MavlinkBridge \<Rightarrow> MavlinkCommand \<Rightarrow> unit outcome \<times> MavlinkBridge" where
  "handle_arm self command = arm self"

definition handle_disarm :: "MavlinkBridge \<Rightarrow> MavlinkCommand \<Rightarrow> unit outcome \<times> MavlinkBridge" where
  "handle_disarm self command = disarm self"

definition handle_set_mode :: "MavlinkBridge \<Rightarrow> MavlinkCommand \<Rightarrow> unit outcome \<times> MavlinkBridge" where
  "handle_set_mode self command =
     (case parameters command ''mode'' of
        None \<Rightarrow> (Inl ValueError, self)
      | Some mode \<Rightarrow> set_mode self (str_of_int (int_of_float mode)))"

definition handle_takeoff :: "MavlinkBridge \<Rightarrow> MavlinkCommand \<Rightarrow> unit outcome \<times> MavlinkBridge" where
  "handle_takeoff self command =
     (case parameters command ''altitude'' of
        None \<Rightarrow> (Inl ValueError, self)
      | Some altitude \<Rightarrow> takeoff self altitude)"

definition handle_goto :: "MavlinkBridge \<Rightarrow> MavlinkCommand \<Rightarrow> unit outcome \<times> MavlinkBridge" where
  "handle_goto self command =
     (case (parameters command ''latitude'', parameters command ''longitude'',
            parameters command ''altitude'') of
        (Some latitude, Some longitude, Some altitude) \<Rightarrow> goto self latitude longitude altitude
      | _ \<Rightarrow> (Inl ValueError, self))"

definition handle_land :: "MavlinkBridge \<Rightarrow> MavlinkCommand \<Rightarrow> unit outcome \<times> MavlinkBridge" where
  "handle_land self command = land self"

definition handle_rtl :: "MavlinkBridge \<Rightarrow> MavlinkCommand \<Rightarrow> unit outcome \<times> MavlinkBridge" where
  "handle_rtl self command =
     (case set_mode self ''RTL'' of
        (Inl e, self1) \<Rightarrow> (Inl e, self1)
      | (Inr _, self1) \<Rightarrow> (Inr (), self1\<lparr>bridge_state := FLYING\<rparr>))"

definition command_handlers ::
  "string \<rightharpoonup> (MavlinkBridge \<Rightarrow> MavlinkCommand \<Rightarrow> unit outcome \<times> MavlinkBridge)" where
  "command_handlers =
     [''ARM'' \<mapsto> handle_arm,
      ''DISARM'' \<mapsto> handle_disarm,
      ''SET_MODE'' \<mapsto> handle_set_mode,
      ''TAKEOFF'' \<mapsto> handle_takeoff,
      ''GOTO'' \<mapsto> handle_goto,
      ''LAND'' \<mapsto> handle_land,
      ''RTL'' \<mapsto> handle_rtl]"

definition send_command :: "MavlinkBridge \<Rightarrow> MavlinkCommand \<Rightarrow> unit outcome \<times> MavlinkBridge" where
  "send_command self command =
     (case require_connection self of
        Inl e \<Rightarrow> (Inl e, self)
      | Inr _ \<Rightarrow>
     (case command_handlers (command_type command) of
        None \<Rightarrow> (Inl ValueError, self)
      | Some handler \<Rightarrow> handler self command))"

section \<open>Mission executor: data model (edge/mission\_executor/models.py)\<close>

datatype ExecutorState =
    IDLE | LOADING | EXECUTING | PAUSED | COMPLETING | COMPLETED | ABORTED

record Waypoint =
  wp_latitude :: real
  wp_longitude :: real
  wp_altitude :: real
  wp_speed :: real
  loiter_time_seconds :: int

record MissionSegment =
  segment_id :: string
  mission_id :: string
  waypoints :: "Waypoint list"
  capture_images :: bool

text \<open>
  The fields of \<open>MissionExecutor\<close>. The bridge object the executor is constructed with is
  kept as a field like the others; the only calls of other threads that are modelled are
  those of the schedule of \<open>execute\<close> below.
\<close>

record MissionExecutor =
  ex_bridge :: MavlinkBridge
  ex_state :: ExecutorState
  current_segment :: "MissionSegment option"
  current_waypoint_index :: nat
  arrival_threshold_meters :: real

definition DEFAULT_ARRIVAL_THRESHOLD_METERS :: real where
  "DEFAULT_ARRIVAL_THRESHOLD_METERS = 2.0"

definition MissionExecutor_init :: "MavlinkBridge \<Rightarrow> MissionExecutor" where
  "MissionExecutor_init bridge =
     \<lparr>ex_bridge = bridge, ex_state = IDLE, current_segment = None, current_waypoint_index = 0,
      arrival_threshold_meters = DEFAULT_ARRIVAL_THRESHOLD_METERS\<rparr>"

text \<open>The bridge of the unit tests before \<open>connect\<close>.\<close>

definition make_bridge :: MavlinkBridge where
  "make_bridge = MavlinkBridge_init ''tcp:127.0.0.1:5760'' 57600"

text \<open>
  A bridge that is connected (as \<open>_make_connected_bridge\<close> sets it up): the link will
  deliver \<open>messages\<close>, the autopilot knows the mode \<open>LOITER\<close>, nothing has been sent.
\<close>

definition make_connected_bridge :: "mav_message list \<Rightarrow> MavlinkBridge" where
  "make_connected_bridge messages =
     make_bridge
       \<lparr>connection := Some \<lparr>incoming = messages, mode_mapping = [''LOITER'' \<mapsto> 5], sent = []\<rparr>,
        bridge_state := AP_CONNECTED\<rparr>"

subsection \<open>\<open>MissionExecutor.load_segment\<close>\<close>

definition load_segment ::
  "MissionExecutor \<Rightarrow> MissionSegment \<Rightarrow> unit outcome \<times> MissionExecutor" where
  "load_segment ex segment =
     (if ex_state ex \<notin> {IDLE, COMPLETED, ABORTED} then (Inl RuntimeError, ex)
      else if waypoints segment = [] then (Inl ValueError, ex)
      else (Inr (),
            ex\<lparr>ex_state := LOADING,
               current_segment := Some segment,
               current_waypoint_index := 0,
               ex_state := EXECUTING\<rparr>))"

subsection \<open>Great-circle distance\<close>

definition EARTH_RADIUS_METERS :: real where "EARTH_RADIUS_METERS = 6371000.0"
definition DEGREES_TO_RADIANS :: real where "DEGREES_TO_RADIANS = pi / 180.0"

text \<open>
  \<open>math.sqrt\<close> raises \<open>ValueError\<close> on a negative argument. \<open>math.atan2(y, x)\<close> is
  the angle of the point \<open>(x, y)\<close> in (-pi, pi], and 0 at the origin.
\<close>

definition math_sqrt :: "real \<Rightarrow> real outcome" where
  "math_sqrt x = (if x < 0 then Inl ValueError else Inr (sqrt x))"

definition atan2 :: "real \<Rightarrow> real \<Rightarrow> real" where
  "atan2 y x =
     (if 0 < x then arctan (y / x)
      else if x < 0 \<and> 0 \<le> y then arctan (y / x) + pi
      else if x < 0 \<and> y < 0 then arctan (y / x) - pi
      else if 0 < y then pi / 2
      else if y < 0 then - (pi / 2)
      else 0)"

definition haversine_distance :: "real \<Rightarrow> real \<Rightarrow> real \<Rightarrow> real \<Rightarrow> real outcome" where
  "haversine_distance latitude_1 longitude_1 latitude_2 longitude_2 =
     (let delta_latitude = (latitude_2 - latitude_1) * DEGREES_TO_RADIANS;
          delta_longitude = (longitude_2 - longitude_1) * DEGREES_TO_RADIANS;
          latitude_1_radians = latitude_1 * DEGREES_TO_RADIANS;
          latitude_2_radians = latitude_2 * DEGREES_TO_RADIANS;
          haversine = (sin (delta_latitude / 2.0)) ^ 2
                      + cos latitude_1_radians * cos latitude_2_radians
                        * (sin (delta_longitude / 2.0)) ^ 2
      in case math_sqrt haversine of
           Inl e \<Rightarrow> Inl e
         | Inr sqrt_haversine \<Rightarrow>
             (case math_sqrt (1.0 - haversine) of
                Inl e \<Rightarrow> Inl e
              | Inr sqrt_complement \<Rightarrow>
                  (let angular_distance = 2.0 * atan2 sqrt_haversine sqrt_complement
                   in Inr (EARTH_RADIUS_METERS * angular_distance))))"

definition has_arrived :: "Waypoint \<Rightarrow> TelemetryData \<Rightarrow> real \<Rightarrow> bool outcome" where
  "has_arrived target current threshold =
     (case haversine_distance (tel_latitude current) (tel_longitude current)
             (wp_latitude target) (wp_longitude target) of
        Inl e \<Rightarrow> Inl e
      | Inr distance \<Rightarrow> Inr (distance \<le> threshold))"

subsection \<open>\<open>pause\<close>, \<open>resume\<close>, \<open>abort\<close>\<close>

definition pause :: "MissionExecutor \<Rightarrow> unit outcome \<times> MissionExecutor" where
  "pause ex =
     (if ex_state ex \<noteq> EXECUTING then (Inl RuntimeError, ex)
      else let ex1 = ex\<lparr>ex_state := PAUSED\<rparr> in
        case set_mode (ex_bridge ex1) ''LOITER'' of
          (Inl e, bridge1) \<Rightarrow> (Inl e, ex1\<lparr>ex_bridge := bridge1\<rparr>)
        | (Inr _, bridge1) \<Rightarrow> (Inr (), ex1\<lparr>ex_bridge := bridge1\<rparr>))"

definition resume :: "MissionExecutor \<Rightarrow> unit outcome \<times> MissionExecutor" where
  "resume ex =
     (if ex_state ex \<noteq> PAUSED then (Inl RuntimeError, ex)
      else (Inr (), ex\<lparr>ex_state := EXECUTING\<rparr>))"

definition abort :: "MissionExecutor \<Rightarrow> unit outcome \<times> MissionExecutor" where
  "abort ex =
     (if ex_state ex = IDLE then (Inl RuntimeError, ex)
      else let ex1 = ex\<lparr>ex_state := ABORTED\<rparr> in
        case set_mode (ex_bridge ex1) ''LOITER'' of
          (Inl e, bridge1) \<Rightarrow> (Inl e, ex1\<lparr>ex_bridge := bridge1\<rparr>)
        | (Inr _, bridge1) \<Rightarrow> (Inr (), ex1\<lparr>ex_bridge := bridge1\<rparr>))"

subsection \<open>\<open>execute\<close>\<close>

text \<open>
  \<open>execute\<close> runs while other threads may call \<open>pause\<close> or \<open>abort\<close> on the same
  executor (the supervisor loop aborts on a fail-safe escalation). The interleaving is
  given by a schedule: its n-th entry is the call another thread makes while the n-th
  \<open>get_telemetry\<close> of this run is blocked waiting for messages; the call has taken
  effect when \<open>get_telemetry\<close> returns. Once the schedule is used up nobody interferes.
  \<open>time.sleep\<close> changes nothing.
\<close>

datatype external_call = NoCall | PauseCall | AbortCall

fun during_call ::
  "MissionExecutor \<Rightarrow> external_call list \<Rightarrow> MissionExecutor \<times> external_call list" where
  "during_call ex [] = (ex, [])"
| "during_call ex (NoCall # schedule) = (ex, schedule)"
| "during_call ex (PauseCall # schedule) = (snd (pause ex), schedule)"
| "during_call ex (AbortCall # schedule) = (snd (abort ex), schedule)"

text \<open>
  The \<open>while True\<close> loop of \<open>_navigate_to_waypoint\<close>. It has no bound of its own, so
  the model takes a bound on the number of iterations and returns \<open>None\<close> when the
  bound is used up before the loop is left.
\<close>

fun poll_until_arrival ::
  "nat \<Rightarrow> Waypoint \<Rightarrow> MissionExecutor \<Rightarrow> external_call list
     \<Rightarrow> (unit outcome \<times> MissionExecutor \<times> external_call list) option" where
  "poll_until_arrival 0 waypoint ex schedule = None"
| "poll_until_arrival (Suc fuel) waypoint ex schedule =
     (if ex_state ex \<in> {PAUSED, ABORTED} then Some (Inr (), ex, schedule)
      else
        (case get_telemetry (ex_bridge ex) of
           (reply, bridge1) \<Rightarrow>
             (case during_call (ex\<lparr>ex_bridge := bridge1\<rparr>) schedule of
                (ex1, schedule1) \<Rightarrow>
                  (case reply of
                     Inl e \<Rightarrow>
                       if e = ConnectionError \<or> e = TimeoutError
                       then poll_until_arrival fuel waypoint ex1 schedule1
                       else Some (Inl e, ex1, schedule1)
                   | Inr telemetry \<Rightarrow>
                       (case has_arrived waypoint telemetry (arrival_threshold_meters ex1) of
                          Inl e \<Rightarrow> Some (Inl e, ex1, schedule1)
                        | Inr arrived \<Rightarrow>
                            if arrived then Some (Inr (), ex1, schedule1)
                            else poll_until_arrival fuel waypoint ex1 schedule1)))))"

definition navigate_to_waypoint ::
  "nat \<Rightarrow> Waypoint \<Rightarrow> MissionExecutor \<Rightarrow> external_call list
     \<Rightarrow> (unit outcome \<times> MissionExecutor \<times> external_call list) option" where
  "navigate_to_waypoint fuel waypoint ex schedule =
     (case goto (ex_bridge ex) (wp_latitude waypoint) (wp_longitude waypoint)
             (wp_altitude waypoint) of
        (Inl e, bridge1) \<Rightarrow> Some (Inl e, ex\<lparr>ex_bridge := bridge1\<rparr>, schedule)
      | (Inr _, bridge1) \<Rightarrow> poll_until_arrival fuel waypoint (ex\<lparr>ex_bridge := bridge1\<rparr>) schedule)"

text \<open>
  The \<open>while\<close> loop of \<open>execute\<close> over the waypoints of \<open>segment\<close>, under the same
  bound.
\<close>

fun execute_loop ::
  "nat \<Rightarrow> MissionSegment \<Rightarrow> MissionExecutor \<Rightarrow> external_call list
     \<Rightarrow> (unit outcome \<times> MissionExecutor \<times> external_call list) option" where
  "execute_loop 0 segment ex schedule = None"
| "execute_loop (Suc fuel) segment ex schedule =
     (if current_waypoint_index ex < length (waypoints segment) then
        if ex_state ex = PAUSED then Some (Inr (), ex, schedule)
        else if ex_state ex = ABORTED then Some (Inr (), ex, schedule)
        else
          (let waypoint = waypoints segment ! current_waypoint_index ex in
           case navigate_to_waypoint fuel waypoint ex schedule of
             None \<Rightarrow> None
           | Some (Inl e, ex1, schedule1) \<Rightarrow> Some (Inl e, ex1, schedule1)
           | Some (Inr _, ex1, schedule1) \<Rightarrow>
               execute_loop fuel segment
                 (ex1\<lparr>current_waypoint_index := current_waypoint_index ex1 + 1\<rparr>) schedule1)
      else Some (Inr (), ex\<lparr>ex_state := COMPLETED\<rparr>, schedule))"

definition require_segment :: "MissionExecutor \<Rightarrow> MissionSegment outcome" where
  "require_segment ex =
     (case current_segment ex of None \<Rightarrow> Inl RuntimeError | Some segment \<Rightarrow> Inr segment)"

definition execute ::
  "nat \<Rightarrow> MissionExecutor \<Rightarrow> external_call list
     \<Rightarrow> (unit outcome \<times> MissionExecutor \<times> external_call list) option" where
  "execute fuel ex schedule =
     (if ex_state ex \<noteq> EXECUTING then Some (Inl RuntimeError, ex, schedule)
      else case require_segment ex of
             Inl e \<Rightarrow> Some (Inl e, ex, schedule)
           | Inr segment \<Rightarrow> execute_loop fuel segment ex schedule)"

subsection \<open>Test fixtures of the executor\<close>

text \<open>
  A waypoint at 50 m with the default speed and no loiter time; the segment
  \<open>_make_segment\<close> builds around a list of waypoints; the three messages of one
  telemetry reading with the vehicle at latitude 0, longitude 0; and an executor that has
  just loaded a segment.
\<close>

definition waypoint_at :: "real \<Rightarrow> real \<Rightarrow> Waypoint" where
  "waypoint_at lat_deg lon_deg =
     \<lparr>wp_latitude = lat_deg, wp_longitude = lon_deg, wp_altitude = 50.0, wp_speed = 5.0,
      loiter_time_seconds = 0\<rparr>"

definition make_segment :: "Waypoint list \<Rightarrow> MissionSegment" where
  "make_segment wps =
     \<lparr>segment_id = ''seg-001'', mission_id = ''mission-001'', waypoints = wps,
      capture_images = True\<rparr>"

definition telemetry_at_origin :: "mav_message list" where
  "telemetry_at_origin =
     [GLOBAL_POSITION_INT 0 0 5000 18000 500 (- 100), SYS_STATUS 12600 80, GPS_RAW_INT 3 12]"

definition loaded :: "MavlinkBridge \<Rightarrow> Waypoint list \<Rightarrow> MissionExecutor" where
  "loaded bridge wps = snd (load_segment (MissionExecutor_init bridge) (make_segment wps))"

section \<open>Obstacle avoidance (edge/obstacle\_avoidance)\<close>

datatype ObstacleSeverity = NONE | LOW | MEDIUM | HIGH | CRITICAL

record DepthFrame =
  df_width :: int
  df_height :: int
  min_distance_meters :: real
  max_distance_meters :: real
  timestamp_ms :: int

record ObstacleDetection =
  distance_meters :: real
  bearing_degrees :: real
  severity :: ObstacleSeverity
  width_meters :: real
  height_meters :: real

record AvoidanceManeuver =
  maneuver_type :: string
  magnitude_meters :: real
  duration_seconds :: real
  priority :: int

text \<open>
  Both result models are pydantic models: building one validates the declared field
  bounds and raises a validation error when a bound is violated.
\<close>

definition new_ObstacleDetection ::
  "real \<Rightarrow> real \<Rightarrow> ObstacleSeverity \<Rightarrow> real \<Rightarrow> real \<Rightarrow> ObstacleDetection outcome" where
  "new_ObstacleDetection d b s w h =
     (if 0 \<le> d \<and> - 180 \<le> b \<and> b \<le> 180 \<and> 0 \<le> w \<and> 0 \<le> h
      then Inr \<lparr>distance_meters = d, bearing_degrees = b, severity = s,
                width_meters = w, height_meters = h\<rparr>
      else Inl ValidationError)"

definition new_AvoidanceManeuver ::
  "string \<Rightarrow> real \<Rightarrow> real \<Rightarrow> int \<Rightarrow> AvoidanceManeuver outcome" where
  "new_AvoidanceManeuver t m d p =
     (if 0 \<le> m \<and> 0 \<le> d \<and> 0 \<le> p \<and> p \<le> 10
      then Inr \<lparr>maneuver_type = t, magnitude_meters = m, duration_seconds = d, priority = p\<rparr>
      else Inl ValidationError)"

definition CRITICAL_RATIO :: real where "CRITICAL_RATIO = 0.2"
definition HIGH_RATIO :: real where "HIGH_RATIO = 0.4"
definition MEDIUM_RATIO :: real where "MEDIUM_RATIO = 0.6"
definition LOW_RATIO :: real where "LOW_RATIO = 0.8"

definition CLIMB_MAGNITUDE_METERS :: real where "CLIMB_MAGNITUDE_METERS = 5.0"
definition LATERAL_MAGNITUDE_METERS :: real where "LATERAL_MAGNITUDE_METERS = 3.0"
definition HOLD_DURATION_SECONDS :: real where "HOLD_DURATION_SECONDS = 2.0"
definition CLIMB_DURATION_SECONDS :: real where "CLIMB_DURATION_SECONDS = 3.0"
definition LATERAL_DURATION_SECONDS :: real where "LATERAL_DURATION_SECONDS = 2.5"

definition MANEUVER_HOLD :: string where "MANEUVER_HOLD = ''hold''"
definition MANEUVER_CLIMB :: string where "MANEUVER_CLIMB = ''climb''"
definition MANEUVER_LATERAL_LEFT :: string where "MANEUVER_LATERAL_LEFT = ''lateral_left''"
definition MANEUVER_LATERAL_RIGHT :: string where "MANEUVER_LATERAL_RIGHT = ''lateral_right''"

definition PRIORITY_CRITICAL :: int where "PRIORITY_CRITICAL = 10"
definition PRIORITY_HIGH :: int where "PRIORITY_HIGH = 8"
definition PRIORITY_MEDIUM :: int where "PRIORITY_MEDIUM = 5"
definition PRIORITY_LOW :: int where "PRIORITY_LOW = 2"

definition BEARING_CENTER_THRESHOLD_DEGREES :: real where
  "BEARING_CENTER_THRESHOLD_DEGREES = 15.0"

text \<open>The two settings \<open>ObstacleAvoidance.__init__\<close> copies from the configuration.\<close>

record ObstacleAvoidance =
  oa_detection_range_meters :: real
  oa_minimum_clearance_meters :: real

definition classify_severity :: "real \<Rightarrow> real \<Rightarrow> ObstacleSeverity" where
  "classify_severity distance detection_range =
     (if detection_range \<le> 0 then NONE
      else let ratio = distance / detection_range in
        if ratio \<le> CRITICAL_RATIO then CRITICAL
        else if ratio \<le> HIGH_RATIO then HIGH
        else if ratio \<le> MEDIUM_RATIO then MEDIUM
        else if ratio \<le> LOW_RATIO then LOW
        else NONE)"

definition estimate_obstacle_width :: "DepthFrame \<Rightarrow> real" where
  "estimate_obstacle_width frame =
     (if max_distance_meters frame \<le> 0 then 1.0
      else let depth_range = max_distance_meters frame - min_distance_meters frame;
               coverage_ratio = 1.0 - depth_range / max_distance_meters frame
           in max 0.5 (coverage_ratio * min_distance_meters frame * 0.5))"

definition estimate_bearing :: "DepthFrame \<Rightarrow> real" where
  "estimate_bearing frame = 0.0"

definition process_depth_frame ::
  "ObstacleAvoidance \<Rightarrow> DepthFrame \<Rightarrow> ObstacleDetection list outcome" where
  "process_depth_frame self frame =
     (if min_distance_meters frame \<le> 0 then Inr []
      else if min_distance_meters frame > oa_detection_range_meters self then Inr []
      else let severity = classify_severity (min_distance_meters frame)
                            (oa_detection_range_meters self) in
        if severity \<noteq> NONE then
          (let estimated_width = estimate_obstacle_width frame;
               estimated_bearing = estimate_bearing frame
           in case new_ObstacleDetection (min_distance_meters frame) estimated_bearing
                     severity estimated_width (estimated_width * 0.75) of
                Inl e \<Rightarrow> Inl e
              | Inr detection \<Rightarrow> Inr ([] @ [detection]))
        else Inr [])"

definition choose_lateral_direction :: "real \<Rightarrow> string" where
  "choose_lateral_direction bearing =
     (if bearing > BEARING_CENTER_THRESHOLD_DEGREES then MANEUVER_LATERAL_LEFT
      else if bearing < - BEARING_CENTER_THRESHOLD_DEGREES then MANEUVER_LATERAL_RIGHT
      else MANEUVER_CLIMB)"

definition select_maneuver :: "ObstacleDetection \<Rightarrow> AvoidanceManeuver outcome" where
  "select_maneuver detection =
     (if severity detection = CRITICAL then
        new_AvoidanceManeuver MANEUVER_HOLD 0.0 HOLD_DURATION_SECONDS PRIORITY_CRITICAL
      else if severity detection = HIGH then
        new_AvoidanceManeuver MANEUVER_CLIMB CLIMB_MAGNITUDE_METERS CLIMB_DURATION_SECONDS
          PRIORITY_HIGH
      else let lateral_direction = choose_lateral_direction (bearing_degrees detection);
               priority = (if severity detection = MEDIUM then PRIORITY_MEDIUM
                           else PRIORITY_LOW)
           in new_AvoidanceManeuver lateral_direction LATERAL_MAGNITUDE_METERS
                LATERAL_DURATION_SECONDS priority)"

text \<open>
  \<open>sorted(detections, key=distance)\<close> is a stable sort; \<open>sort_key\<close> (insertion sort) is
  stable as well, so the first element is the nearest detection, the earliest one among
  equals. The list is not empty where \<open>sorted_detections[0]\<close> is read, so \<open>hd\<close> is
  that element.
\<close>

definition compute_avoidance ::
  "ObstacleAvoidance \<Rightarrow> ObstacleDetection list \<Rightarrow> AvoidanceManeuver option outcome" where
  "compute_avoidance self detections =
     (if detections = [] then Inr None
      else let sorted_detections = sort_key distance_meters detections;
               most_critical = hd sorted_detections
           in if severity most_critical = NONE then Inr None
              else if distance_meters most_critical \<ge> oa_minimum_clearance_meters self
                then Inr None
              else (case select_maneuver most_critical of
                      Inl e \<Rightarrow> Inl e
                    | Inr maneuver \<Rightarrow> Inr (Some maneuver)))"


definition make_avoidance :: ObstacleAvoidance where
  "make_avoidance = \<lparr>oa_detection_range_meters = 10.0, oa_minimum_clearance_meters = 2.0\<rparr>"

section \<open>Configuration (edge/config.py)\<close>

datatype ConnectivityMode = AWS_IOT | MOSQUITTO

record EdgeSettings =
  drone_id :: string
  mqtt_endpoint :: string
  mqtt_port :: int
  connectivity_mode :: ConnectivityMode
  mavlink_connection :: string
  mavlink_baud_rate :: int
  certificate_path :: string
  private_key_path :: string
  root_ca_path :: string
  obstacle_detection_range_meters :: real
  minimum_clearance_meters :: real
  image_capture_interval_seconds :: int
  image_compression_quality :: int
  telemetry_report_interval_seconds :: int
  degraded_threshold_seconds :: int
  holding_threshold_seconds :: int
  return_threshold_seconds :: int
  log_level :: string

text \<open>
  What the constructor is given: one optional value per field, already parsed to the
  field's type (\<open>None\<close>: neither a keyword argument nor an environment variable
  supplies it, so the declared default applies). A character is read as its code point
  (below 256).
\<close>

record EdgeSettings_values =
  given_drone_id :: "string option"
  given_mqtt_endpoint :: "string option"
  given_mqtt_port :: "int option"
  given_connectivity_mode :: "ConnectivityMode option"
  given_mavlink_connection :: "string option"
  given_mavlink_baud_rate :: "int option"
  given_certificate_path :: "string option"
  given_private_key_path :: "string option"
  given_root_ca_path :: "string option"
  given_obstacle_detection_range_meters :: "real option"
  given_minimum_clearance_meters :: "real option"
  given_image_capture_interval_seconds :: "int option"
  given_image_compression_quality :: "int option"
  given_telemetry_report_interval_seconds :: "int option"
  given_degraded_threshold_seconds :: "int option"
  given_holding_threshold_seconds :: "int option"
  given_return_threshold_seconds :: "int option"
  given_log_level :: "string option"

definition field_default :: "'a \<Rightarrow> 'a option \<Rightarrow> 'a" where
  "field_default d given = (case given of None \<Rightarrow> d | Some v \<Rightarrow> v)"

text \<open>
  The stripping of \<open>str_strip_whitespace\<close> and \<open>str.upper()\<close>. pydantic strips the
  characters with the Unicode property White\_Space; below 256 these are the space, the
  control characters 9 to 13, the next-line character 133 and the no-break space 160
  (the separators 28 to 31, which \<open>str.strip()\<close> would remove, are kept).
  \<open>str.upper()\<close> maps the letters a to z to A to Z; no other character below 256 is
  mapped to a string of the letters A to Z that occurs in a level name, so the other
  characters are left as they are.
\<close>

definition is_whitespace :: "char \<Rightarrow> bool" where
  "is_whitespace c \<longleftrightarrow>
     (let n = (of_char c :: nat)
      in n = 32 \<or> (9 \<le> n \<and> n \<le> 13) \<or> n = 133 \<or> n = 160)"

definition strip :: "string \<Rightarrow> string" where
  "strip s = rev (dropWhile is_whitespace (rev (dropWhile is_whitespace s)))"

definition upper_char :: "char \<Rightarrow> char" where
  "upper_char c =
     (let n = (of_char c :: nat) in if 97 \<le> n \<and> n \<le> 122 then char_of (n - 32) else c)"

definition upper :: "string \<Rightarrow> string" where
  "upper s = map upper_char s"

definition validate_log_level :: "string \<Rightarrow> string outcome" where
  "validate_log_level v =
     (let allowed = {''DEBUG'', ''INFO'', ''WARNING'', ''ERROR'', ''CRITICAL''};
          upper_value = upper v
      in if upper_value \<notin> allowed then Inl ValueError else Inr upper_value)"

text \<open>
  \<open>EdgeSettings(...)\<close>: defaults are filled in, strings are stripped
  (\<open>str_strip_whitespace\<close>), every \<open>Field\<close> bound is checked and the \<open>log_level\<close>
  validator runs. Any failure raises one validation error (fatal at start-up). The
  class declares no validator over more than one field.
\<close>

definition EdgeSettings_new :: "EdgeSettings_values \<Rightarrow> EdgeSettings outcome" where
  "EdgeSettings_new given =
     (case given_drone_id given of
        None \<Rightarrow> Inl ValidationError
      | Some raw_drone_id \<Rightarrow>
         (let v_drone_id = strip raw_drone_id;
              v_mqtt_endpoint = strip (field_default ''localhost'' (given_mqtt_endpoint given));
              v_mqtt_port = field_default 1883 (given_mqtt_port given);
              v_range = field_default 10.0 (given_obstacle_detection_range_meters given);
              v_clearance = field_default 2.0 (given_minimum_clearance_meters given);
              v_capture = field_default 5 (given_image_capture_interval_seconds given);
              v_quality = field_default 85 (given_image_compression_quality given);
              v_telemetry = field_default 2 (given_telemetry_report_interval_seconds given);
              v_degraded = field_default 10 (given_degraded_threshold_seconds given);
              v_holding = field_default 30 (given_holding_threshold_seconds given);
              v_return = field_default 120 (given_return_threshold_seconds given)
          in case validate_log_level (strip (field_default ''INFO'' (given_log_level given))) of
               Inl e \<Rightarrow> Inl ValidationError
             | Inr v_log_level \<Rightarrow>
                 if length v_drone_id \<ge> 1
                    \<and> length v_mqtt_endpoint \<ge> 1
                    \<and> 1 \<le> v_mqtt_port \<and> v_mqtt_port \<le> 65535
                    \<and> 1.0 \<le> v_range \<and> v_range \<le> 50.0
                    \<and> 0.5 \<le> v_clearance \<and> v_clearance \<le> 10.0
                    \<and> 1 \<le> v_capture \<and> v_capture \<le> 60
                    \<and> 1 \<le> v_quality \<and> v_quality \<le> 100
                    \<and> 1 \<le> v_telemetry \<and> v_telemetry \<le> 30
                    \<and> 5 \<le> v_degraded \<and> v_degraded \<le> 60
                    \<and> 15 \<le> v_holding \<and> v_holding \<le> 120
                    \<and> 60 \<le> v_return \<and> v_return \<le> 600
                 then Inr
                   \<lparr>drone_id = v_drone_id,
                    mqtt_endpoint = v_mqtt_endpoint,
                    mqtt_port = v_mqtt_port,
                    connectivity_mode = field_default MOSQUITTO (given_connectivity_mode given),
                    mavlink_connection =
                      strip (field_default ''tcp:127.0.0.1:5760'' (given_mavlink_connection given)),
                    mavlink_baud_rate = field_default 57600 (given_mavlink_baud_rate given),
                    certificate_path = strip (field_default [] (given_certificate_path given)),
                    private_key_path = strip (field_default [] (given_private_key_path given)),
                    root_ca_path = strip (field_default [] (given_root_ca_path given)),
                    obstacle_detection_range_meters = v_range,
                    minimum_clearance_meters = v_clearance,
                    image_capture_interval_seconds = v_capture,
                    image_compression_quality = v_quality,
                    telemetry_report_interval_seconds = v_telemetry,
                    degraded_threshold_seconds = v_degraded,
                    holding_threshold_seconds = v_holding,
                    return_threshold_seconds = v_return,
                    log_level = v_log_level\<rparr>
                 else Inl ValidationError))"

text \<open>\<open>EdgeSettings(drone_id=...)\<close> with nothing else supplied.\<close>

definition only_drone_id :: "string \<Rightarrow> EdgeSettings_values" where
  "only_drone_id name =
     \<lparr>given_drone_id = Some name, given_mqtt_endpoint = None, given_mqtt_port = None,
      given_connectivity_mode = None, given_mavlink_connection = None,
      given_mavlink_baud_rate = None, given_certificate_path = None,
      given_private_key_path = None, given_root_ca_path = None,
      given_obstacle_detection_range_meters = None, given_minimum_clearance_meters = None,
      given_image_capture_interval_seconds = None, given_image_compression_quality = None,
      given_telemetry_report_interval_seconds = None,
      given_degraded_threshold_seconds = None, given_holding_threshold_seconds = None,
      given_return_threshold_seconds = None, given_log_level = None\<rparr>"

text \<open>
  The settings the unit tests build with \<open>_make_settings()\<close>: only the drone id is
  supplied, every other field takes its default.
\<close>

definition make_settings :: EdgeSettings where
  "make_settings =
     \<lparr>drone_id = ''drone-test'', mqtt_endpoint = ''localhost'', mqtt_port = 1883,
      connectivity_mode = MOSQUITTO, mavlink_connection = ''tcp:127.0.0.1:5760'',
      mavlink_baud_rate = 57600, certificate_path = [], private_key_path = [],
      root_ca_path = [], obstacle_detection_range_meters = 10.0,
      minimum_clearance_meters = 2.0, image_capture_interval_seconds = 5,
      image_compression_quality = 85, telemetry_report_interval_seconds = 2,
      degraded_threshold_seconds = 10, holding_threshold_seconds = 30,
      return_threshold_seconds = 120, log_level = ''INFO''\<rparr>"

definition ObstacleAvoidance_init :: "EdgeSettings \<Rightarrow> ObstacleAvoidance" where
  "ObstacleAvoidance_init settings =
     \<lparr>oa_detection_range_meters = obstacle_detection_range_meters settings,
      oa_minimum_clearance_meters = minimum_clearance_meters settings\<rparr>"

section \<open>Fail-safe manager (edge/mission\_executor/fail\_safe.py)\<close>

datatype FailSafeState = FS_CONNECTED | DEGRADED | HOLDING | RETURNING

record FailSafeManager =
  fs_degraded_threshold_seconds :: int
  fs_holding_threshold_seconds :: int
  fs_return_threshold_seconds :: int
  fs_state :: FailSafeState
  disconnected_since :: "real option"

definition FailSafeManager_init :: "EdgeSettings \<Rightarrow> FailSafeManager" where
  "FailSafeManager_init settings =
     \<lparr>fs_degraded_threshold_seconds = degraded_threshold_seconds settings,
      fs_holding_threshold_seconds = holding_threshold_seconds settings,
      fs_return_threshold_seconds = return_threshold_seconds settings,
      fs_state = FS_CONNECTED,
      disconnected_since = None\<rparr>"

definition handle_connected :: "FailSafeManager \<Rightarrow> FailSafeManager" where
  "handle_connected self = self\<lparr>fs_state := FS_CONNECTED, disconnected_since := None\<rparr>"

text \<open>
  \<open>_handle_disconnected\<close> reads the monotonic clock once; the reading is the argument
  \<open>current_time\<close>. After its first statement the timer is set, so the subtraction
  always finds a start time (the \<open>None\<close> case of \<open>elapsed_seconds\<close> is never taken).
\<close>

definition handle_disconnected :: "FailSafeManager \<Rightarrow> real \<Rightarrow> FailSafeManager" where
  "handle_disconnected self current_time =
     (let self1 = (case disconnected_since self of
                     None \<Rightarrow> self\<lparr>disconnected_since := Some current_time\<rparr>
                   | Some _ \<Rightarrow> self);
          elapsed_seconds = (case disconnected_since self1 of
                               None \<Rightarrow> 0
                             | Some since \<Rightarrow> current_time - since)
      in if elapsed_seconds \<ge> real_of_int (fs_return_threshold_seconds self1)
           then self1\<lparr>fs_state := RETURNING\<rparr>
         else if elapsed_seconds \<ge> real_of_int (fs_holding_threshold_seconds self1)
           then self1\<lparr>fs_state := HOLDING\<rparr>
         else if elapsed_seconds \<ge> real_of_int (fs_degraded_threshold_seconds self1)
           then self1\<lparr>fs_state := DEGRADED\<rparr>
         else self1)"

definition update_connectivity :: "FailSafeManager \<Rightarrow> bool \<Rightarrow> real \<Rightarrow> FailSafeManager" where
  "update_connectivity self is_connected current_time =
     (if is_connected then handle_connected self
      else handle_disconnected self current_time)"

definition should_hold :: "FailSafeManager \<Rightarrow> bool" where
  "should_hold self \<longleftrightarrow> fs_state self = HOLDING"

definition should_return :: "FailSafeManager \<Rightarrow> bool" where
  "should_return self \<longleftrightarrow> fs_state self = RETURNING"

definition reset :: "FailSafeManager \<Rightarrow> FailSafeManager" where
  "reset self = self\<lparr>fs_state := FS_CONNECTED, disconnected_since := None\<rparr>"

text \<open>
  A sequence of \<open>update_connectivity\<close> calls: each call is the flag it is given and
  the clock reading it takes.
\<close>

fun update_all :: "FailSafeManager \<Rightarrow> (bool \<times> real) list \<Rightarrow> FailSafeManager" where
  "update_all self [] = self"
| "update_all self ((is_connected, current_time) # calls) =
     update_all (update_connectivity self is_connected current_time) calls"

text \<open>
  The escalation order of the states, as the module documents it:
  \<open>CONNECTED -> DEGRADED -> HOLDING -> RETURNING\<close>.
\<close>

fun escalation_level :: "FailSafeState \<Rightarrow> nat" where
  "escalation_level FS_CONNECTED = 0"
| "escalation_level DEGRADED = 1"
| "escalation_level HOLDING = 2"
| "escalation_level RETURNING = 3"

text \<open>
  The specification's wording of the state a disconnected update selects: starting from
  \<open>CONNECTED\<close>, the most severe state among those whose threshold the elapsed
  disconnection time has reached. It is compared with \<open>handle_disconnected\<close> below.
\<close>

definition highest_crossed :: "FailSafeManager \<Rightarrow> real \<Rightarrow> FailSafeState" where
  "highest_crossed self elapsed =
     fold (\<lambda>(threshold, state) highest.
             if elapsed \<ge> real_of_int threshold \<and> escalation_level state > escalation_level highest
             then state else highest)
       [(fs_degraded_threshold_seconds self, DEGRADED),
        (fs_holding_threshold_seconds self, HOLDING),
        (fs_return_threshold_seconds self, RETURNING)]
       FS_CONNECTED"

text \<open>
  The invariant of the manager along any sequence of updates taken on a monotonic clock
  whose readings so far are at most \<open>bound\<close>: the thresholds are those of the settings;
  with no timer running the state is \<open>CONNECTED\<close>; with a timer running the state is
  the one selected at some earlier reading \<open>seen\<close>.
\<close>

definition fail_safe_inv :: "EdgeSettings \<Rightarrow> FailSafeManager \<Rightarrow> real \<Rightarrow> bool" where
  "fail_safe_inv settings self bound \<longleftrightarrow>
     fs_degraded_threshold_seconds self = degraded_threshold_seconds settings
     \<and> fs_holding_threshold_seconds self = holding_threshold_seconds settings
     \<and> fs_return_threshold_seconds self = return_threshold_seconds settings
     \<and> (case disconnected_since self of
          None \<Rightarrow> fs_state self = FS_CONNECTED
        | Some since \<Rightarrow>
            \<exists>seen. since \<le> seen \<and> seen \<le> bound
                   \<and> fs_state self = highest_crossed self (seen - since))"

section \<open>Cloud connector (edge/cloud\_connector/connector.py)\<close>

definition MAX_BUFFER_SIZE :: nat where
  "MAX_BUFFER_SIZE = 1000"

text \<open>
  The connector's fields. \<open>client_publish_calls\<close> stands for the MQTT client: the
  \<open>(topic, payload)\<close> of every \<open>client.publish\<close> call so far, in call order.
\<close>

record CloudConnector =
  cc_drone_id :: string
  cc_is_connected :: bool
  message_buffer :: "(string \<times> string) list"
  client_publish_calls :: "(string \<times> string) list"

definition CloudConnector_init :: "EdgeSettings \<Rightarrow> CloudConnector" where
  "CloudConnector_init settings =
     \<lparr>cc_drone_id = drone_id settings, cc_is_connected = False, message_buffer = [],
      client_publish_calls = []\<rparr>"

text \<open>
  \<open>pop(0)\<close> is guarded by \<open>len(buffer) >= 1000\<close>, so the list it pops from is
  never empty and \<open>tl\<close> is the list without its first entry.
\<close>

definition buffer_message :: "CloudConnector \<Rightarrow> string \<Rightarrow> string \<Rightarrow> CloudConnector" where
  "buffer_message self topic payload =
     (let self1 = (if length (message_buffer self) \<ge> MAX_BUFFER_SIZE
                   then self\<lparr>message_buffer := tl (message_buffer self)\<rparr>
                   else self)
      in self1\<lparr>message_buffer := message_buffer self1 @ [(topic, payload)]\<rparr>)"

fun publish_each :: "(string \<times> string) list \<Rightarrow> (string \<times> string) list \<Rightarrow> (string \<times> string) list" where
  "publish_each calls [] = calls"
| "publish_each calls ((topic, payload) # messages_to_send) =
     publish_each (calls @ [(topic, payload)]) messages_to_send"

definition drain_buffer :: "CloudConnector \<Rightarrow> CloudConnector" where
  "drain_buffer self =
     (if message_buffer self = [] then self
      else let messages_to_send = message_buffer self;
               self1 = self\<lparr>message_buffer := []\<rparr>
           in self1\<lparr>client_publish_calls :=
                      publish_each (client_publish_calls self1) messages_to_send\<rparr>)"

text \<open>
  \<open>publish_telemetry\<close>: the telemetry message is given by its \<open>report_type\<close> and
  its JSON serialisation (\<open>model_dump_json()\<close>).
\<close>

definition publish_telemetry :: "CloudConnector \<Rightarrow> string \<Rightarrow> string \<Rightarrow> CloudConnector" where
  "publish_telemetry self report_type json =
     (let topic = ''drone/'' @ cc_drone_id self @ ''/telemetry/'' @ report_type;
          payload = json
      in if \<not> cc_is_connected self then buffer_message self topic payload
         else self\<lparr>client_publish_calls := client_publish_calls self @ [(topic, payload)]\<rparr>)"

text \<open>
  The MQTT library is paho-mqtt 2.x: the constructor call of \<open>__init__\<close> passes
  \<open>callback_api_version=mqtt.CallbackAPIVersion.VERSION2\<close>, which exists from version
  2.0 on. There a reason code is an object of class \<open>ReasonCode\<close> that compares equal
  to its numeric value (0 is success); it is modelled by that value. The name
  \<open>mqtt.ReasonCodes\<close> is the deprecated alias class of \<open>ReasonCode\<close>. The names of the
  codes are kept in a table of each instance, the class has no attribute \<open>SUCCESS\<close>, so
  evaluating \<open>mqtt.ReasonCodes.SUCCESS\<close> raises \<open>AttributeError\<close>.
\<close>

definition ReasonCodes_SUCCESS :: "nat outcome" where
  "ReasonCodes_SUCCESS = Inl AttributeError"

text \<open>
  \<open>_on_connect\<close>, the callback the client runs when the broker answers a connection
  request with \<open>reason_code\<close>. The condition of its \<open>if\<close> is evaluated first; an
  exception raised there leaves the callback before any field is written (the method
  has no handler).
\<close>

definition on_connect :: "CloudConnector \<Rightarrow> nat \<Rightarrow> unit outcome \<times> CloudConnector" where
  "on_connect self reason_code =
     (case ReasonCodes_SUCCESS of
        Inl e \<Rightarrow> (Inl e, self)
      | Inr success \<Rightarrow>
          if reason_code = success
          then (Inr (), drain_buffer (self\<lparr>cc_is_connected := True\<rparr>))
          else (Inr (), self\<lparr>cc_is_connected := False\<rparr>))"

definition on_disconnect :: "CloudConnector \<Rightarrow> CloudConnector" where
  "on_disconnect self = self\<lparr>cc_is_connected := False\<rparr>"

definition cc_disconnect :: "CloudConnector \<Rightarrow> CloudConnector" where
  "cc_disconnect self = self\<lparr>cc_is_connected := False\<rparr>"

text \<open>
  The calls that change the connector's fields, and a run of them (\<open>connect\<close>,
  \<open>subscribe_commands\<close> and the message callback touch neither the flag nor the buffer).
  The callbacks are run by the client's network thread; an exception of a callback ends
  in that thread and the connector keeps the fields the callback left.
\<close>

datatype connector_call =
    PublishTelemetry string string
  | OnConnect nat
  | OnDisconnect
  | Disconnect

fun connector_step :: "CloudConnector \<Rightarrow> connector_call \<Rightarrow> CloudConnector" where
  "connector_step self (PublishTelemetry report_type json) = publish_telemetry self report_type json"
| "connector_step self (OnConnect reason_code) = snd (on_connect self reason_code)"
| "connector_step self OnDisconnect = on_disconnect self"
| "connector_step self Disconnect = cc_disconnect self"

fun connector_run :: "CloudConnector \<Rightarrow> connector_call list \<Rightarrow> CloudConnector" where
  "connector_run self [] = self"
| "connector_run self (c # cs) = connector_run (connector_step self c) cs"

text \<open>The buffer entry \<open>publish_telemetry\<close> builds for a message on drone \<open>name\<close>.\<close>

definition telemetry_entry :: "string \<Rightarrow> string \<times> string \<Rightarrow> string \<times> string" where
  "telemetry_entry name m = (''drone/'' @ name @ ''/telemetry/'' @ fst m, snd m)"

section \<open>Theorems\<close>

subsection \<open>Mission executor: loading a segment\<close>

text \<open>
  Claim C5. \<open>load_segment\<close> returns normally exactly when the executor is in \<open>IDLE\<close>,
  \<open>COMPLETED\<close> or \<open>ABORTED\<close> and the segment has at least one waypoint; it then stores
  the segment, resets the waypoint index to 0 and ends in \<open>EXECUTING\<close>. From
  \<open>LOADING\<close>, \<open>EXECUTING\<close> or \<open>PAUSED\<close> it raises. For a segment with no waypoint it
  raises from every state, and the state, the stored segment and the waypoint index
  (all the fields of the executor) are what they were before the call.
\<close>

theorem C5_load_segment:
  "(fst (load_segment ex segment) = Inr () \<longleftrightarrow>
      ex_state ex \<in> {IDLE, COMPLETED, ABORTED} \<and> waypoints segment \<noteq> [])
   \<and> (fst (load_segment ex segment) = Inr () \<longrightarrow>
        snd (load_segment ex segment) =
          ex\<lparr>ex_state := EXECUTING, current_segment := Some segment,
             current_waypoint_index := 0\<rparr>)
   \<and> (ex_state ex \<in> {LOADING, EXECUTING, PAUSED} \<longrightarrow>
        load_segment ex segment = (Inl RuntimeError, ex))
   \<and> (waypoints segment = [] \<longrightarrow>
        (\<exists>e. load_segment ex segment = (Inl e, ex)))"
  by (auto simp: load_segment_def)

theorem C5_load_segment_witness:
  "load_segment (MissionExecutor_init make_bridge)
     \<lparr>segment_id = ''seg-001'', mission_id = ''mission-001'',
      waypoints = [\<lparr>wp_latitude = 40, wp_longitude = - 74, wp_altitude = 50,
                     wp_speed = 5, loiter_time_seconds = 0\<rparr>],
      capture_images = True\<rparr>
     = (Inr (),
        (MissionExecutor_init make_bridge)
          \<lparr>ex_state := EXECUTING,
           current_segment := Some
             \<lparr>segment_id = ''seg-001'', mission_id = ''mission-001'',
              waypoints = [\<lparr>wp_latitude = 40, wp_longitude = - 74, wp_altitude = 50,
                             wp_speed = 5, loiter_time_seconds = 0\<rparr>],
              capture_images = True\<rparr>,
           current_waypoint_index := 0\<rparr>)
   \<and> load_segment ((MissionExecutor_init make_bridge)\<lparr>ex_state := PAUSED\<rparr>)
       \<lparr>segment_id = ''seg-001'', mission_id = ''mission-001'',
        waypoints = [\<lparr>wp_latitude = 40, wp_longitude = - 74, wp_altitude = 50,
                       wp_speed = 5, loiter_time_seconds = 0\<rparr>],
        capture_images = True\<rparr>
       = (Inl RuntimeError, (MissionExecutor_init make_bridge)\<lparr>ex_state := PAUSED\<rparr>)
   \<and> (\<exists>e. load_segment (MissionExecutor_init make_bridge)
         \<lparr>segment_id = ''seg-empty'', mission_id = ''mission-001'', waypoints = [],
          capture_images = True\<rparr>
         = (Inl e, MissionExecutor_init make_bridge))"
  using
    C5_load_segment [of "MissionExecutor_init make_bridge"
      "\<lparr>segment_id = ''seg-001'', mission_id = ''mission-001'',
        waypoints = [\<lparr>wp_latitude = 40, wp_longitude = - 74, wp_altitude = 50,
                       wp_speed = 5, loiter_time_seconds = 0\<rparr>],
        capture_images = True\<rparr>"]
    C5_load_segment [of "(MissionExecutor_init make_bridge)\<lparr>ex_state := PAUSED\<rparr>"
      "\<lparr>segment_id = ''seg-001'', mission_id = ''mission-001'',
        waypoints = [\<lparr>wp_latitude = 40, wp_longitude = - 74, wp_altitude = 50,
                       wp_speed = 5, loiter_time_seconds = 0\<rparr>],
        capture_images = True\<rparr>"]
    C5_load_segment [of "MissionExecutor_init make_bridge"
      "\<lparr>segment_id = ''seg-empty'', mission_id = ''mission-001'', waypoints = [],
        capture_images = True\<rparr>"]
  by (simp add: MissionExecutor_init_def prod_eq_iff)

subsection \<open>Obstacle avoidance\<close>

lemmas obstacle_consts =
  CRITICAL_RATIO_def HIGH_RATIO_def MEDIUM_RATIO_def LOW_RATIO_def
  CLIMB_MAGNITUDE_METERS_def LATERAL_MAGNITUDE_METERS_def HOLD_DURATION_SECONDS_def
  CLIMB_DURATION_SECONDS_def LATERAL_DURATION_SECONDS_def MANEUVER_HOLD_def
  MANEUVER_CLIMB_def MANEUVER_LATERAL_LEFT_def MANEUVER_LATERAL_RIGHT_def
  PRIORITY_CRITICAL_def PRIORITY_HIGH_def PRIORITY_MEDIUM_def PRIORITY_LOW_def
  BEARING_CENTER_THRESHOLD_DEGREES_def

lemma estimate_obstacle_width_pos: "0 < estimate_obstacle_width frame"
  by (simp add: estimate_obstacle_width_def Let_def max_def)

lemma process_depth_frame_eq:
  "process_depth_frame self frame =
     (if min_distance_meters frame \<le> 0 \<or> min_distance_meters frame > oa_detection_range_meters self
         \<or> classify_severity (min_distance_meters frame) (oa_detection_range_meters self) = NONE
      then Inr []
      else Inr [\<lparr>distance_meters = min_distance_meters frame, bearing_degrees = 0,
                 severity = classify_severity (min_distance_meters frame)
                              (oa_detection_range_meters self),
                 width_meters = estimate_obstacle_width frame,
                 height_meters = estimate_obstacle_width frame * 0.75\<rparr>])"
  using estimate_obstacle_width_pos [of frame]
  by (simp add: process_depth_frame_def new_ObstacleDetection_def estimate_bearing_def Let_def)




text \<open>
  Claim C10. For every depth frame \<open>process_depth_frame\<close> returns normally, and the
  list it returns holds at most one detection.
\<close>

theorem C10_at_most_one_detection:
  "\<exists>detections. process_depth_frame self frame = Inr detections \<and> length detections \<le> 1"
  by (simp add: process_depth_frame_eq)

lemma select_maneuver_lateral:
  assumes "severity detection = MEDIUM \<or> severity detection = LOW"
  shows "select_maneuver detection =
     Inr \<lparr>maneuver_type =
            (if bearing_degrees detection > 15 then ''lateral_left''
             else if bearing_degrees detection < - 15 then ''lateral_right''
             else ''climb''),
          magnitude_meters = 3, duration_seconds = 2.5,
          priority = (if severity detection = MEDIUM then 5 else 2)\<rparr>"
  using assms
  by (auto simp: select_maneuver_def choose_lateral_direction_def new_AvoidanceManeuver_def
      Let_def obstacle_consts)

text \<open>
  Claim C7. When the nearest detection handed to \<open>compute_avoidance\<close> is of
  \<open>MEDIUM\<close> or \<open>LOW\<close> severity and closer than the minimum clearance, a lateral-avoidance
  maneuver (magnitude 3 m, duration 2.5 s, priority 5 for \<open>MEDIUM\<close> and 2 for
  \<open>LOW\<close>) is returned whose kind follows the bearing: above +15 degrees \<open>lateral_left\<close>, below -15 degrees
  \<open>lateral_right\<close>, and anywhere in [-15, +15], both ends included, \<open>climb\<close>.
\<close>

theorem C7_bearing_dead_zone:
  assumes "sort_key distance_meters detections = nearest # others"
    and "severity nearest = MEDIUM \<or> severity nearest = LOW"
    and "distance_meters nearest < oa_minimum_clearance_meters self"
  shows "compute_avoidance self detections =
           Inr (Some
             \<lparr>maneuver_type =
                (if bearing_degrees nearest > 15 then ''lateral_left''
                 else if bearing_degrees nearest < - 15 then ''lateral_right''
                 else ''climb''),
              magnitude_meters = 3, duration_seconds = 2.5,
              priority = (if severity nearest = MEDIUM then 5 else 2)\<rparr>)"
proof -
  from assms(1) have "detections \<noteq> []" by auto
  with assms select_maneuver_lateral [of nearest] show ?thesis
    by (auto simp: compute_avoidance_def Let_def)
qed

theorem C7_bearing_dead_zone_witness:
  "compute_avoidance make_avoidance
      [\<lparr>distance_meters = 1.5, bearing_degrees = 15.0, severity = MEDIUM,
        width_meters = 1.0, height_meters = 1.0\<rparr>]
     = Inr (Some \<lparr>maneuver_type = ''climb'', magnitude_meters = 3,
                  duration_seconds = 2.5, priority = 5\<rparr>)
   \<and> compute_avoidance make_avoidance
      [\<lparr>distance_meters = 1.5, bearing_degrees = - 15.0, severity = LOW,
        width_meters = 1.0, height_meters = 1.0\<rparr>]
     = Inr (Some \<lparr>maneuver_type = ''climb'', magnitude_meters = 3,
                  duration_seconds = 2.5, priority = 2\<rparr>)
   \<and> compute_avoidance make_avoidance
      [\<lparr>distance_meters = 1.5, bearing_degrees = 15.1, severity = MEDIUM,
        width_meters = 1.0, height_meters = 1.0\<rparr>]
     = Inr (Some \<lparr>maneuver_type = ''lateral_left'', magnitude_meters = 3,
                  duration_seconds = 2.5, priority = 5\<rparr>)
   \<and> compute_avoidance make_avoidance
      [\<lparr>distance_meters = 1.5, bearing_degrees = - 15.1, severity = LOW,
        width_meters = 1.0, height_meters = 1.0\<rparr>]
     = Inr (Some \<lparr>maneuver_type = ''lateral_right'', magnitude_meters = 3,
                  duration_seconds = 2.5, priority = 2\<rparr>)"
  using
    C7_bearing_dead_zone [of
      "[\<lparr>distance_meters = 1.5, bearing_degrees = 15.0, severity = MEDIUM,
         width_meters = 1.0, height_meters = 1.0\<rparr>]"
      "\<lparr>distance_meters = 1.5, bearing_degrees = 15.0, severity = MEDIUM,
        width_meters = 1.0, height_meters = 1.0\<rparr>" "[]" make_avoidance]
    C7_bearing_dead_zone [of
      "[\<lparr>distance_meters = 1.5, bearing_degrees = - 15.0, severity = LOW,
         width_meters = 1.0, height_meters = 1.0\<rparr>]"
      "\<lparr>distance_meters = 1.5, bearing_degrees = - 15.0, severity = LOW,
        width_meters = 1.0, height_meters = 1.0\<rparr>" "[]" make_avoidance]
    C7_bearing_dead_zone [of
      "[\<lparr>distance_meters = 1.5, bearing_degrees = 15.1, severity = MEDIUM,
         width_meters = 1.0, height_meters = 1.0\<rparr>]"
      "\<lparr>distance_meters = 1.5, bearing_degrees = 15.1, severity = MEDIUM,
        width_meters = 1.0, height_meters = 1.0\<rparr>" "[]" make_avoidance]
    C7_bearing_dead_zone [of
      "[\<lparr>distance_meters = 1.5, bearing_degrees = - 15.1, severity = LOW,
         width_meters = 1.0, height_meters = 1.0\<rparr>]"
      "\<lparr>distance_meters = 1.5, bearing_degrees = - 15.1, severity = LOW,
        width_meters = 1.0, height_meters = 1.0\<rparr>" "[]" make_avoidance]
  by (simp add: make_avoidance_def)

subsection \<open>Configuration\<close>

lemma make_settings_ok: "EdgeSettings_new (only_drone_id ''drone-test'') = Inr make_settings"
  by (simp add: EdgeSettings_new_def only_drone_id_def field_default_def strip_def
      is_whitespace_def validate_log_level_def upper_def upper_char_def make_settings_def Let_def)

lemma accepted_iff: "(if c then Inr r else Inl e) = Inr s \<longleftrightarrow> c \<and> r = s"
  by simp

lemma EdgeSettings_new_thresholds:
  assumes "EdgeSettings_new given = Inr settings"
  shows "degraded_threshold_seconds settings = field_default 10 (given_degraded_threshold_seconds given)"
    and "holding_threshold_seconds settings = field_default 30 (given_holding_threshold_seconds given)"
    and "return_threshold_seconds settings = field_default 120 (given_return_threshold_seconds given)"
    and "5 \<le> degraded_threshold_seconds settings \<and> degraded_threshold_seconds settings \<le> 60"
    and "15 \<le> holding_threshold_seconds settings \<and> holding_threshold_seconds settings \<le> 120"
    and "60 \<le> return_threshold_seconds settings \<and> return_threshold_seconds settings \<le> 600"
  using assms
  by (auto simp: EdgeSettings_new_def Let_def accepted_iff split: option.splits sum.splits)

lemma field_default_Some: "field_default d (Some v) = v"
  by (simp add: field_default_def)

lemma EdgeSettings_new_replace_thresholds:
  assumes "EdgeSettings_new given = Inr settings"
  shows "EdgeSettings_new
          (given\<lparr>given_degraded_threshold_seconds := Some degraded,
                 given_holding_threshold_seconds := Some holding,
                 given_return_threshold_seconds := Some return\<rparr>)
        = (if 5 \<le> degraded \<and> degraded \<le> 60 \<and> 15 \<le> holding \<and> holding \<le> 120
              \<and> 60 \<le> return \<and> return \<le> 600
           then Inr (settings\<lparr>degraded_threshold_seconds := degraded,
                              holding_threshold_seconds := holding,
                              return_threshold_seconds := return\<rparr>)
           else Inl ValidationError)"
proof -
  from assms obtain raw where raw: "given_drone_id given = Some raw"
    by (auto simp: EdgeSettings_new_def split: option.splits)
  from assms raw obtain level where
    level: "validate_log_level (strip (field_default ''INFO'' (given_log_level given))) = Inr level"
    by (auto simp: EdgeSettings_new_def Let_def split: sum.splits)
  show ?thesis
  proof (cases "5 \<le> degraded \<and> degraded \<le> 60 \<and> 15 \<le> holding \<and> holding \<le> 120
              \<and> 60 \<le> return \<and> return \<le> 600")
    case False
    then show ?thesis
      by (simp add: EdgeSettings_new_def raw level Let_def field_default_Some; blast)
  next
    case True
    with assms show ?thesis
      by (auto simp add: EdgeSettings_new_def raw level Let_def field_default_Some accepted_iff)
  qed
qed

text \<open>
  Claim C3, as stated, fails: the settings class checks each threshold against its own
  range only. A degraded threshold of 60 s is accepted beside the default holding
  threshold of 30 s, and a holding threshold of 120 s beside the default return
  threshold of 120 s (both are inputs of edge\_tests/unit/test\_config.py, which expects
  them to be accepted).
\<close>

theorem C3_unordered_thresholds_accepted:
  "EdgeSettings_new
     ((only_drone_id ''drone-test'')\<lparr>given_degraded_threshold_seconds := Some 60\<rparr>)
     = Inr (make_settings\<lparr>degraded_threshold_seconds := 60\<rparr>)
   \<and> \<not> degraded_threshold_seconds (make_settings\<lparr>degraded_threshold_seconds := 60\<rparr>)
        < holding_threshold_seconds (make_settings\<lparr>degraded_threshold_seconds := 60\<rparr>)
   \<and> EdgeSettings_new
     ((only_drone_id ''drone-test'')\<lparr>given_holding_threshold_seconds := Some 120\<rparr>)
     = Inr (make_settings\<lparr>holding_threshold_seconds := 120\<rparr>)
   \<and> \<not> holding_threshold_seconds (make_settings\<lparr>holding_threshold_seconds := 120\<rparr>)
        < return_threshold_seconds (make_settings\<lparr>holding_threshold_seconds := 120\<rparr>)"
  by (simp add: EdgeSettings_new_def only_drone_id_def field_default_def strip_def
      is_whitespace_def validate_log_level_def upper_def upper_char_def make_settings_def Let_def)

text \<open>
  Claim C3, amended. Validation rejects, with a validation error, any settings in which a
  supplied fail-safe threshold lies outside its own range (degraded [5, 60], holding
  [15, 120], return [60, 600]); every accepted configuration has its three thresholds
  inside these ranges. No order between the thresholds is checked: in a configuration
  that is accepted, the three thresholds can be replaced by any three values, and the
  result is accepted (with exactly these thresholds, every other field as before) if and
  only if each value lies in its own range, whatever their order.
\<close>

theorem C3_threshold_ranges:
  "(EdgeSettings_new given = Inr settings \<longrightarrow>
      5 \<le> degraded_threshold_seconds settings \<and> degraded_threshold_seconds settings \<le> 60
      \<and> 15 \<le> holding_threshold_seconds settings \<and> holding_threshold_seconds settings \<le> 120
      \<and> 60 \<le> return_threshold_seconds settings \<and> return_threshold_seconds settings \<le> 600)
   \<and> ((\<exists>v. given_degraded_threshold_seconds given = Some v \<and> (v < 5 \<or> 60 < v))
       \<or> (\<exists>v. given_holding_threshold_seconds given = Some v \<and> (v < 15 \<or> 120 < v))
       \<or> (\<exists>v. given_return_threshold_seconds given = Some v \<and> (v < 60 \<or> 600 < v))
       \<longrightarrow> EdgeSettings_new given = Inl ValidationError)
   \<and> (EdgeSettings_new given = Inr settings \<longrightarrow>
        EdgeSettings_new
          (given\<lparr>given_degraded_threshold_seconds := Some degraded,
                 given_holding_threshold_seconds := Some holding,
                 given_return_threshold_seconds := Some return\<rparr>)
        = (if 5 \<le> degraded \<and> degraded \<le> 60 \<and> 15 \<le> holding \<and> holding \<le> 120
              \<and> 60 \<le> return \<and> return \<le> 600
           then Inr (settings\<lparr>degraded_threshold_seconds := degraded,
                              holding_threshold_seconds := holding,
                              return_threshold_seconds := return\<rparr>)
           else Inl ValidationError))"
proof (intro conjI; rule impI)
  assume "EdgeSettings_new given = Inr settings"
  from EdgeSettings_new_thresholds(4-6) [OF this]
  show "5 \<le> degraded_threshold_seconds settings \<and> degraded_threshold_seconds settings \<le> 60
      \<and> 15 \<le> holding_threshold_seconds settings \<and> holding_threshold_seconds settings \<le> 120
      \<and> 60 \<le> return_threshold_seconds settings \<and> return_threshold_seconds settings \<le> 600"
    by simp
next
  assume out_of_range: "(\<exists>v. given_degraded_threshold_seconds given = Some v \<and> (v < 5 \<or> 60 < v))
       \<or> (\<exists>v. given_holding_threshold_seconds given = Some v \<and> (v < 15 \<or> 120 < v))
       \<or> (\<exists>v. given_return_threshold_seconds given = Some v \<and> (v < 60 \<or> 600 < v))"
  show "EdgeSettings_new given = Inl ValidationError"
  proof (cases "EdgeSettings_new given")
    case (Inl e)
    then show ?thesis
      by (simp add: EdgeSettings_new_def Let_def split: option.splits sum.splits if_splits)
  next
    case (Inr settings)
    from EdgeSettings_new_thresholds [OF this] out_of_range have False
      by (auto simp: field_default_def)
    then show ?thesis ..
  qed
next
  assume "EdgeSettings_new given = Inr settings"
  then show "EdgeSettings_new
          (given\<lparr>given_degraded_threshold_seconds := Some degraded,
                 given_holding_threshold_seconds := Some holding,
                 given_return_threshold_seconds := Some return\<rparr>)
        = (if 5 \<le> degraded \<and> degraded \<le> 60 \<and> 15 \<le> holding \<and> holding \<le> 120
              \<and> 60 \<le> return \<and> return \<le> 600
           then Inr (settings\<lparr>degraded_threshold_seconds := degraded,
                              holding_threshold_seconds := holding,
                              return_threshold_seconds := return\<rparr>)
           else Inl ValidationError)"
    by (rule EdgeSettings_new_replace_thresholds)
qed

theorem C3_threshold_ranges_witness:
  "EdgeSettings_new (only_drone_id ''drone-test'') = Inr make_settings
   \<and> 5 \<le> degraded_threshold_seconds make_settings
   \<and> EdgeSettings_new
       ((only_drone_id ''drone-test'')\<lparr>given_degraded_threshold_seconds := Some 4\<rparr>)
       = Inl ValidationError
   \<and> EdgeSettings_new
       ((only_drone_id ''drone-test'')
          \<lparr>given_degraded_threshold_seconds := Some 60,
           given_holding_threshold_seconds := Some 120,
           given_return_threshold_seconds := Some 60\<rparr>)
       = Inr (make_settings\<lparr>degraded_threshold_seconds := 60,
                           holding_threshold_seconds := 120,
                           return_threshold_seconds := 60\<rparr>)
   \<and> EdgeSettings_new
       ((only_drone_id ''drone-test'')
          \<lparr>given_degraded_threshold_seconds := Some 60,
           given_holding_threshold_seconds := Some 121,
           given_return_threshold_seconds := Some 60\<rparr>)
       = Inl ValidationError"
  using C3_threshold_ranges [of "only_drone_id ''drone-test''" make_settings]
    C3_threshold_ranges [of
      "(only_drone_id ''drone-test'')\<lparr>given_degraded_threshold_seconds := Some 4\<rparr>"]
    C3_threshold_ranges [of "only_drone_id ''drone-test''" make_settings 60 120 60]
    C3_threshold_ranges [of "only_drone_id ''drone-test''" make_settings 60 121 60]
    make_settings_ok
  by simp


subsection \<open>Fail-safe manager\<close>

lemma highest_crossed_code:
  "highest_crossed self elapsed =
     (if elapsed \<ge> real_of_int (fs_return_threshold_seconds self) then RETURNING
      else if elapsed \<ge> real_of_int (fs_holding_threshold_seconds self) then HOLDING
      else if elapsed \<ge> real_of_int (fs_degraded_threshold_seconds self) then DEGRADED
      else FS_CONNECTED)"
  by (simp add: highest_crossed_def)

lemma highest_crossed_mono:
  assumes "fs_degraded_threshold_seconds self < fs_holding_threshold_seconds self"
    and "fs_holding_threshold_seconds self < fs_return_threshold_seconds self"
    and "e1 \<le> e2"
  shows "escalation_level (highest_crossed self e1) \<le> escalation_level (highest_crossed self e2)"
  using assms by (auto simp: highest_crossed_code)

lemma highest_crossed_fields [simp]:
  "highest_crossed (self\<lparr>fs_state := s\<rparr>) e = highest_crossed self e"
  "highest_crossed (self\<lparr>disconnected_since := t\<rparr>) e = highest_crossed self e"
  by (simp_all add: highest_crossed_code)

lemma handle_disconnected_running:
  assumes "disconnected_since self = Some since"
  shows "handle_disconnected self now =
     (if now - since \<ge> real_of_int (fs_degraded_threshold_seconds self)
         \<or> now - since \<ge> real_of_int (fs_holding_threshold_seconds self)
         \<or> now - since \<ge> real_of_int (fs_return_threshold_seconds self)
      then self\<lparr>fs_state := highest_crossed self (now - since)\<rparr> else self)"
  using assms by (simp add: handle_disconnected_def Let_def highest_crossed_code)

lemma handle_disconnected_start:
  assumes "disconnected_since self = None"
    and "0 < fs_degraded_threshold_seconds self"
    and "0 < fs_holding_threshold_seconds self"
    and "0 < fs_return_threshold_seconds self"
  shows "handle_disconnected self now = self\<lparr>disconnected_since := Some now\<rparr>"
  using assms by (simp add: handle_disconnected_def Let_def)

lemma fail_safe_inv_weaken:
  "fail_safe_inv settings self bound \<Longrightarrow> bound \<le> bound' \<Longrightarrow> fail_safe_inv settings self bound'"
  by (auto simp: fail_safe_inv_def split: option.splits)

lemma fail_safe_inv_init: "fail_safe_inv settings (FailSafeManager_init settings) bound"
  by (simp add: fail_safe_inv_def FailSafeManager_init_def)

lemma fail_safe_inv_step:
  assumes inv: "fail_safe_inv settings self bound"
    and asc: "0 < degraded_threshold_seconds settings"
      "degraded_threshold_seconds settings < holding_threshold_seconds settings"
      "holding_threshold_seconds settings < return_threshold_seconds settings"
    and clock: "bound \<le> now"
  shows "fail_safe_inv settings (update_connectivity self is_connected now) now"
proof (cases is_connected)
  case True
  with inv show ?thesis
    by (simp add: update_connectivity_def handle_connected_def fail_safe_inv_def)
next
  case False
  show ?thesis
  proof (cases "disconnected_since self")
    case None
    with inv asc have "handle_disconnected self now = self\<lparr>disconnected_since := Some now\<rparr>"
      by (intro handle_disconnected_start) (simp_all add: fail_safe_inv_def)
    with inv None asc False show ?thesis
      by (auto simp: update_connectivity_def fail_safe_inv_def highest_crossed_code intro!: exI [of _ now])
  next
    case (Some since)
    from inv Some obtain seen where seen: "since \<le> seen" "seen \<le> bound"
      "fs_state self = highest_crossed self (seen - since)"
      by (auto simp: fail_safe_inv_def)
    have "fs_state self = highest_crossed self (now - since)"
      if "\<not> now - since \<ge> real_of_int (fs_degraded_threshold_seconds self)"
    proof -
      from that seen clock have "\<not> seen - since \<ge> real_of_int (fs_degraded_threshold_seconds self)"
        by simp
      with that inv asc seen(3) show ?thesis
        by (auto simp: fail_safe_inv_def highest_crossed_code)
    qed
    then have "fs_state (handle_disconnected self now) = highest_crossed self (now - since)"
      using inv asc by (auto simp: handle_disconnected_running [OF Some] fail_safe_inv_def)
    moreover have "since \<le> now" using seen clock by simp
    ultimately show ?thesis
      using inv Some False
      by (auto simp: update_connectivity_def fail_safe_inv_def handle_disconnected_running [OF Some]
          intro!: exI [of _ now])
  qed
qed

lemma fail_safe_inv_update_all:
  assumes asc: "0 < degraded_threshold_seconds settings"
      "degraded_threshold_seconds settings < holding_threshold_seconds settings"
      "holding_threshold_seconds settings < return_threshold_seconds settings"
  shows "fail_safe_inv settings self bound \<Longrightarrow> sorted (bound # map snd calls @ [now])
     \<Longrightarrow> fail_safe_inv settings (update_all self calls) now"
proof (induction calls arbitrary: self bound)
  case Nil
  then show ?case by (auto intro: fail_safe_inv_weaken)
next
  case (Cons call calls)
  obtain c t where call: "call = (c, t)" by (cases call)
  from Cons.prems have "bound \<le> t" and rest: "sorted (t # map snd calls @ [now])"
    by (auto simp: call)
  from fail_safe_inv_step [OF Cons.prems(1) asc \<open>bound \<le> t\<close>]
  have "fail_safe_inv settings (update_connectivity self c t) t" .
  from Cons.IH [OF this rest] show ?case by (simp add: call)
qed

text \<open>
  Claim C2. Let the thresholds be ascending (0 < degraded < holding < return), let the
  manager be in the state reached from its initial state by any sequence of
  \<open>update_connectivity\<close> calls, and let the next call read a clock value \<open>now\<close>
  on the same monotonic clock. Then: with \<open>is_connected = True\<close> the state becomes
  \<open>CONNECTED\<close> and the timer is cleared, whatever the state was; with
  \<open>is_connected = False\<close> and no timer running, the timer is started at \<open>now\<close>
  (and nothing else changes); with a timer running since \<open>since\<close>, the state is set to
  the highest threshold the elapsed time \<open>now - since\<close> has reached; and a disconnected
  update never lowers the escalation level.
\<close>

theorem C2_fail_safe_escalation:
  assumes ascending: "0 < degraded_threshold_seconds settings"
      "degraded_threshold_seconds settings < holding_threshold_seconds settings"
      "holding_threshold_seconds settings < return_threshold_seconds settings"
    and monotonic_clock: "sorted (map snd calls @ [now])"
    and reached: "self = update_all (FailSafeManager_init settings) calls"
  shows "update_connectivity self True now =
           self\<lparr>fs_state := FS_CONNECTED, disconnected_since := None\<rparr>
       \<and> (disconnected_since self = None \<longrightarrow>
            update_connectivity self False now = self\<lparr>disconnected_since := Some now\<rparr>)
       \<and> (\<forall>since. disconnected_since self = Some since \<longrightarrow>
            update_connectivity self False now =
              self\<lparr>fs_state := highest_crossed self (now - since)\<rparr>)
       \<and> escalation_level (fs_state self)
            \<le> escalation_level (fs_state (update_connectivity self False now))"
proof -
  define first where "first = hd (map snd calls @ [now])"
  have "sorted (first # map snd calls @ [now])"
    using monotonic_clock by (cases calls) (auto simp: first_def)
  from fail_safe_inv_update_all [OF ascending fail_safe_inv_init this]
  have inv: "fail_safe_inv settings self now" by (simp add: reached)
  then have fields: "fs_degraded_threshold_seconds self = degraded_threshold_seconds settings"
    "fs_holding_threshold_seconds self = holding_threshold_seconds settings"
    "fs_return_threshold_seconds self = return_threshold_seconds settings"
    by (simp_all add: fail_safe_inv_def)
  have connected: "update_connectivity self True now =
           self\<lparr>fs_state := FS_CONNECTED, disconnected_since := None\<rparr>"
    by (simp add: update_connectivity_def handle_connected_def)
  have start: "update_connectivity self False now = self\<lparr>disconnected_since := Some now\<rparr>"
    if "disconnected_since self = None"
    using that ascending fields
    by (simp add: update_connectivity_def handle_disconnected_start)
  have running: "update_connectivity self False now =
              self\<lparr>fs_state := highest_crossed self (now - since)\<rparr>
           \<and> escalation_level (fs_state self) \<le> escalation_level (highest_crossed self (now - since))"
    if since: "disconnected_since self = Some since" for since
  proof -
    from inv since obtain seen where seen: "since \<le> seen" "seen \<le> now"
      "fs_state self = highest_crossed self (seen - since)"
      by (auto simp: fail_safe_inv_def)
    have mono: "escalation_level (fs_state self) \<le> escalation_level (highest_crossed self (now - since))"
      unfolding seen(3) using ascending fields seen(2)
      by (intro highest_crossed_mono) simp_all
    have "self\<lparr>fs_state := highest_crossed self (now - since)\<rparr> = self"
      if "\<not> now - since \<ge> real_of_int (fs_degraded_threshold_seconds self)"
    proof -
      from that seen have "\<not> seen - since \<ge> real_of_int (fs_degraded_threshold_seconds self)"
        by simp
      with that ascending fields seen(3) show ?thesis
        by (auto simp: highest_crossed_code)
    qed
    then have "update_connectivity self False now =
              self\<lparr>fs_state := highest_crossed self (now - since)\<rparr>"
      using ascending fields
      by (auto simp: update_connectivity_def handle_disconnected_running [OF since])
    with mono show ?thesis by simp
  qed
  have no_regress: "escalation_level (fs_state self)
            \<le> escalation_level (fs_state (update_connectivity self False now))"
  proof (cases "disconnected_since self")
    case None
    then show ?thesis by (simp add: start)
  next
    case (Some since)
    from running [OF this] show ?thesis by simp
  qed
  from connected start running no_regress show ?thesis by blast
qed

theorem C2_fail_safe_escalation_witness:
  "update_connectivity (FailSafeManager_init make_settings) False 0
     = (FailSafeManager_init make_settings)\<lparr>disconnected_since := Some 0\<rparr>
   \<and> update_all (FailSafeManager_init make_settings) [(False, 0), (False, 5)]
     = (FailSafeManager_init make_settings)\<lparr>disconnected_since := Some 0\<rparr>
   \<and> update_connectivity
       (update_all (FailSafeManager_init make_settings) [(False, 0), (False, 5)]) False 10
     = (FailSafeManager_init make_settings)
         \<lparr>fs_state := DEGRADED, disconnected_since := Some 0\<rparr>
   \<and> update_all (FailSafeManager_init make_settings)
       [(False, 0), (False, 5), (False, 10), (False, 20), (False, 30), (False, 90), (False, 120)]
     = (FailSafeManager_init make_settings)
         \<lparr>fs_state := RETURNING, disconnected_since := Some 0\<rparr>
   \<and> update_connectivity
       (update_all (FailSafeManager_init make_settings)
          [(False, 0), (False, 5), (False, 10), (False, 20), (False, 30), (False, 90),
           (False, 120)]) False 200
     = (FailSafeManager_init make_settings)
         \<lparr>fs_state := RETURNING, disconnected_since := Some 0\<rparr>
   \<and> update_connectivity
       (update_all (FailSafeManager_init make_settings)
          [(False, 0), (False, 5), (False, 10), (False, 20), (False, 30), (False, 90),
           (False, 120)]) True 200
     = FailSafeManager_init make_settings"
  using
    C2_fail_safe_escalation [of make_settings "[]" 0, OF _ _ _ _ refl]
    C2_fail_safe_escalation [of make_settings "[(False, 0), (False, 5)]" 10, OF _ _ _ _ refl]
    C2_fail_safe_escalation [of make_settings
      "[(False, 0), (False, 5), (False, 10), (False, 20), (False, 30), (False, 90), (False, 120)]"
      200, OF _ _ _ _ refl]
  by (simp add: make_settings_def FailSafeManager_init_def update_connectivity_def
      handle_disconnected_def handle_connected_def highest_crossed_def Let_def)

subsection \<open>Cloud connector\<close>

lemma publish_each_append: "publish_each calls messages = calls @ messages"
  by (induction messages arbitrary: calls) auto

lemma drain_buffer_eq:
  "drain_buffer self =
     self\<lparr>message_buffer := [],
          client_publish_calls := client_publish_calls self @ message_buffer self\<rparr>"
  by (simp add: drain_buffer_def Let_def publish_each_append)

lemma buffer_message_eq:
  "buffer_message self topic payload =
     self\<lparr>message_buffer :=
            (if length (message_buffer self) \<ge> 1000 then tl (message_buffer self)
             else message_buffer self) @ [(topic, payload)]\<rparr>"
  by (simp add: buffer_message_def Let_def MAX_BUFFER_SIZE_def)

lemma buffer_message_bound:
  "length (message_buffer self) \<le> 1000 \<Longrightarrow>
     length (message_buffer (buffer_message self topic payload)) \<le> 1000"
  by (simp add: buffer_message_eq)

lemma connector_step_bound:
  "length (message_buffer self) \<le> 1000 \<Longrightarrow>
     length (message_buffer (connector_step self call)) \<le> 1000"
  by (cases call)
    (simp_all add: publish_telemetry_def Let_def buffer_message_bound on_connect_def
      ReasonCodes_SUCCESS_def on_disconnect_def cc_disconnect_def)

lemma connector_run_bound:
  "length (message_buffer self) \<le> 1000 \<Longrightarrow>
     length (message_buffer (connector_run self calls)) \<le> 1000"
  by (induction calls arbitrary: self) (simp_all add: connector_step_bound)

lemma publish_offline_run:
  assumes "\<not> cc_is_connected self" and "length (message_buffer self) \<le> 1000"
  shows "connector_run self (map (\<lambda>(report_type, json). PublishTelemetry report_type json) messages) =
     self\<lparr>message_buffer :=
            drop (length (message_buffer self) + length messages - 1000)
              (message_buffer self @ map (telemetry_entry (cc_drone_id self)) messages)\<rparr>"
  using assms
proof (induction messages arbitrary: self)
  case Nil
  then show ?case by simp
next
  case (Cons m messages)
  obtain rt json where m: "m = (rt, json)" by (cases m)
  let ?next = "publish_telemetry self rt json"
  have next_eq: "?next = self\<lparr>message_buffer :=
            (if length (message_buffer self) \<ge> 1000 then tl (message_buffer self)
             else message_buffer self) @ [telemetry_entry (cc_drone_id self) m]\<rparr>"
    using Cons.prems by (simp add: publish_telemetry_def Let_def buffer_message_eq telemetry_entry_def m)
  have off: "\<not> cc_is_connected ?next" and bound: "length (message_buffer ?next) \<le> 1000"
    using Cons.prems by (simp_all add: next_eq)
  show ?case
  proof (cases "length (message_buffer self) \<ge> 1000")
    case True
    with Cons.prems have full: "length (message_buffer self) = 1000" by simp
    then obtain x xs where buf: "message_buffer self = x # xs" by (cases "message_buffer self") auto
    with full have "length xs = 999" by simp
    then show ?thesis
      using Cons.IH [OF off bound] by (simp add: m next_eq buf)
  next
    case False
    then show ?thesis
      using Cons.IH [OF off bound] by (simp add: m next_eq) 
  qed
qed

text \<open>
  The buffer itself behaves as described. Along any sequence of connector calls from the
  initial state the buffer holds at most 1000 entries. Publishing while disconnected
  appends the message to the buffer, after dropping exactly the oldest entry when the
  buffer already holds 1000. Publishing 1001 messages while disconnected, starting from
  the initial state, leaves the entries of all messages but the first, in order (so 1000
  entries, the last two messages at the tail). \<open>_drain_buffer\<close>, when it is called,
  publishes the buffered entries in buffer order after the earlier publish calls and
  leaves the buffer empty; on an empty buffer it changes nothing.
\<close>

lemma buffer_bound_eviction_drain:
  "length (message_buffer (connector_run (CloudConnector_init settings) calls)) \<le> 1000
   \<and> (\<not> cc_is_connected self \<and> length (message_buffer self) < 1000 \<longrightarrow>
        publish_telemetry self report_type json =
          self\<lparr>message_buffer := message_buffer self
             @ [(''drone/'' @ cc_drone_id self @ ''/telemetry/'' @ report_type, json)]\<rparr>)
   \<and> (\<not> cc_is_connected self \<and> length (message_buffer self) = 1000 \<longrightarrow>
        publish_telemetry self report_type json =
          self\<lparr>message_buffer := tl (message_buffer self)
             @ [(''drone/'' @ cc_drone_id self @ ''/telemetry/'' @ report_type, json)]\<rparr>)
   \<and> (length messages = 1001 \<longrightarrow>
        message_buffer
          (connector_run (CloudConnector_init settings)
             (map (\<lambda>(report_type, json). PublishTelemetry report_type json) messages))
        = tl (map (\<lambda>(report_type, json).
                     (''drone/'' @ drone_id settings @ ''/telemetry/'' @ report_type, json))
                messages)
        \<and> length (message_buffer
             (connector_run (CloudConnector_init settings)
                (map (\<lambda>(report_type, json). PublishTelemetry report_type json) messages)))
            = 1000
        \<and> drop 998 (message_buffer
             (connector_run (CloudConnector_init settings)
                (map (\<lambda>(report_type, json). PublishTelemetry report_type json) messages)))
            = map (\<lambda>(report_type, json).
                     (''drone/'' @ drone_id settings @ ''/telemetry/'' @ report_type, json))
                [messages ! 999, messages ! 1000])
   \<and> drain_buffer self =
        self\<lparr>message_buffer := [],
             client_publish_calls := client_publish_calls self @ message_buffer self\<rparr>
   \<and> (message_buffer self = [] \<longrightarrow> drain_buffer self = self)"
proof -
  have bound: "length (message_buffer (connector_run (CloudConnector_init settings) calls)) \<le> 1000"
    by (rule connector_run_bound) (simp add: CloudConnector_init_def)
  have append: "publish_telemetry self report_type json =
          self\<lparr>message_buffer := message_buffer self
             @ [(''drone/'' @ cc_drone_id self @ ''/telemetry/'' @ report_type, json)]\<rparr>"
    if "\<not> cc_is_connected self \<and> length (message_buffer self) < 1000"
    using that by (simp add: publish_telemetry_def Let_def buffer_message_eq)
  have evict: "publish_telemetry self report_type json =
          self\<lparr>message_buffer := tl (message_buffer self)
             @ [(''drone/'' @ cc_drone_id self @ ''/telemetry/'' @ report_type, json)]\<rparr>"
    if "\<not> cc_is_connected self \<and> length (message_buffer self) = 1000"
    using that by (simp add: publish_telemetry_def Let_def buffer_message_eq)
  have overflow: "message_buffer
          (connector_run (CloudConnector_init settings)
             (map (\<lambda>(report_type, json). PublishTelemetry report_type json) messages))
        = tl (map (\<lambda>(report_type, json).
                     (''drone/'' @ drone_id settings @ ''/telemetry/'' @ report_type, json))
                messages)
        \<and> length (message_buffer
             (connector_run (CloudConnector_init settings)
                (map (\<lambda>(report_type, json). PublishTelemetry report_type json) messages)))
            = 1000
        \<and> drop 998 (message_buffer
             (connector_run (CloudConnector_init settings)
                (map (\<lambda>(report_type, json). PublishTelemetry report_type json) messages)))
            = map (\<lambda>(report_type, json).
                     (''drone/'' @ drone_id settings @ ''/telemetry/'' @ report_type, json))
                [messages ! 999, messages ! 1000]"
    if "length messages = 1001"
  proof -
    have entry: "telemetry_entry (drone_id settings) =
        (\<lambda>(report_type, json). (''drone/'' @ drone_id settings @ ''/telemetry/'' @ report_type, json))"
      by (rule ext) (simp add: telemetry_entry_def split_beta)
    have "\<not> cc_is_connected (CloudConnector_init settings)"
      and "length (message_buffer (CloudConnector_init settings)) \<le> 1000"
      by (simp_all add: CloudConnector_init_def)
    from publish_offline_run [OF this, of messages]
    have "message_buffer
          (connector_run (CloudConnector_init settings)
             (map (\<lambda>(report_type, json). PublishTelemetry report_type json) messages))
        = drop (length messages - 1000) (map (telemetry_entry (drone_id settings)) messages)"
      by (simp add: CloudConnector_init_def)
    also have "\<dots> = drop (Suc 0) (map (telemetry_entry (drone_id settings)) messages)"
      using that by simp
    also have "\<dots> = tl (map (telemetry_entry (drone_id settings)) messages)"
      by (simp only: drop_Suc drop_0)
    finally have buffered: "message_buffer
          (connector_run (CloudConnector_init settings)
             (map (\<lambda>(report_type, json). PublishTelemetry report_type json) messages))
        = tl (map (telemetry_entry (drone_id settings)) messages)" .
    have "drop 999 messages = messages ! 999 # drop (Suc 999) messages"
      and "drop 1000 messages = messages ! 1000 # drop (Suc 1000) messages"
      using that by (simp_all only: Cons_nth_drop_Suc) 
    moreover have "drop 1001 messages = []" using that by simp
    ultimately have last_two: "drop 999 messages = [messages ! 999, messages ! 1000]" by simp
    have "drop 998 (tl (map (telemetry_entry (drone_id settings)) messages))
        = drop 998 (drop (Suc 0) (map (telemetry_entry (drone_id settings)) messages))"
      by (simp only: drop_Suc drop_0)
    also have "\<dots> = drop 999 (map (telemetry_entry (drone_id settings)) messages)"
      by simp
    also have "\<dots> = map (telemetry_entry (drone_id settings)) (drop 999 messages)"
      by (simp only: drop_map)
    finally have tail: "drop 998 (tl (map (telemetry_entry (drone_id settings)) messages))
        = map (telemetry_entry (drone_id settings)) [messages ! 999, messages ! 1000]"
      by (simp only: last_two)
    show ?thesis
      unfolding buffered tail using that unfolding entry by simp
  qed
  have drain: "drain_buffer self =
        self\<lparr>message_buffer := [],
             client_publish_calls := client_publish_calls self @ message_buffer self\<rparr>"
    by (rule drain_buffer_eq)
  have noop: "drain_buffer self = self" if "message_buffer self = []"
    using that by (simp add: drain_buffer_def)
  show ?thesis
    apply (intro conjI impI)
    subgoal by (rule bound)
    subgoal by (rule append)
    subgoal by (rule evict)
    subgoal premises many by (rule overflow [OF many, THEN conjunct1])
    subgoal premises many by (rule overflow [OF many, THEN conjunct2, THEN conjunct1])
    subgoal premises many by (rule overflow [OF many, THEN conjunct2, THEN conjunct2])
    subgoal by (rule drain)
    subgoal by (rule noop)
    done
qed

lemma buffer_bound_eviction_drain_example:
  "publish_telemetry (CloudConnector_init make_settings) ''position'' ''{}''
     = (CloudConnector_init make_settings)
         \<lparr>message_buffer := [(''drone/drone-test/telemetry/position'', ''{}'')]\<rparr>
   \<and> publish_telemetry
       ((CloudConnector_init make_settings)
          \<lparr>message_buffer := (''topic/0'', ''payload-0'') # replicate 999 (''topic/n'', ''payload-n'')\<rparr>)
       ''overflow'' ''payload-overflow''
     = (CloudConnector_init make_settings)
         \<lparr>message_buffer := replicate 999 (''topic/n'', ''payload-n'')
            @ [(''drone/drone-test/telemetry/overflow'', ''payload-overflow'')]\<rparr>
   \<and> message_buffer
       (connector_run (CloudConnector_init make_settings)
          (map (\<lambda>(report_type, json). PublishTelemetry report_type json)
             (map (\<lambda>i. (''position'', replicate i (CHR ''x''))) [0..<1001])))
     = tl (map (\<lambda>(report_type, json).
                  (''drone/'' @ drone_id make_settings @ ''/telemetry/'' @ report_type, json))
             (map (\<lambda>i. (''position'', replicate i (CHR ''x''))) [0..<1001]))
   \<and> drain_buffer (CloudConnector_init make_settings) = CloudConnector_init make_settings"
proof -
  let ?init = "CloudConnector_init make_settings"
  let ?full = "?init\<lparr>message_buffer :=
                 (''topic/0'', ''payload-0'') # replicate 999 (''topic/n'', ''payload-n'')\<rparr>"
  let ?messages = "map (\<lambda>i. (''position'', replicate i (CHR ''x''))) [0..<1001]"
  have many: "length ?messages = 1001"
    by (simp only: length_map length_upt)
  have first: "publish_telemetry ?init ''position'' ''{}''
     = ?init\<lparr>message_buffer := [(''drone/drone-test/telemetry/position'', ''{}'')]\<rparr>"
    using buffer_bound_eviction_drain [of make_settings "[]" ?init "''position''" "''{}''" "[]"]
    by (simp add: CloudConnector_init_def make_settings_def)
  have evict: "publish_telemetry ?full ''overflow'' ''payload-overflow''
     = ?init\<lparr>message_buffer := replicate 999 (''topic/n'', ''payload-n'')
            @ [(''drone/drone-test/telemetry/overflow'', ''payload-overflow'')]\<rparr>"
    using buffer_bound_eviction_drain [of make_settings "[]" ?full "''overflow''" "''payload-overflow''" "[]"]
    by (simp add: CloudConnector_init_def make_settings_def)
  have overflow: "message_buffer
       (connector_run ?init
          (map (\<lambda>(report_type, json). PublishTelemetry report_type json) ?messages))
     = tl (map (\<lambda>(report_type, json).
                  (''drone/'' @ drone_id make_settings @ ''/telemetry/'' @ report_type, json))
             ?messages)"
    using buffer_bound_eviction_drain [of make_settings "[]" ?init "''position''" "''{}''" ?messages] many
    by blast
  have noop: "drain_buffer ?init = ?init"
    using buffer_bound_eviction_drain [of make_settings "[]" ?init "''position''" "''{}''" "[]"]
    by (simp add: CloudConnector_init_def)
  from first evict overflow noop show ?thesis by blast
qed

text \<open>
  Claim C4 does not hold of the connector: the buffer is never drained on reconnection.
  \<open>_drain_buffer\<close> is called from \<open>_on_connect\<close> only, after the comparison of the
  reason code with \<open>mqtt.ReasonCode(mqtt.ReasonCodes.SUCCESS)\<close>; that expression raises
  \<open>AttributeError\<close>, so for every state of the connector and every reason code the
  callback ends with the exception and changes no field. Two telemetry messages
  published while disconnected and then a connection acknowledged with reason code 0
  (success) leave both entries in the buffer, nothing handed to the client, and the
  connector still marked as not connected, so a third message is buffered as well.
\<close>

theorem C4_reconnection_does_not_drain:
  "on_connect self reason_code = (Inl AttributeError, self)
   \<and> connector_run (CloudConnector_init make_settings)
        [PublishTelemetry ''position'' ''payload-1'',
         PublishTelemetry ''battery'' ''payload-2'',
         OnConnect 0]
      = \<lparr>cc_drone_id = ''drone-test'', cc_is_connected = False,
         message_buffer = [(''drone/drone-test/telemetry/position'', ''payload-1''),
                           (''drone/drone-test/telemetry/battery'', ''payload-2'')],
         client_publish_calls = []\<rparr>
   \<and> connector_run (CloudConnector_init make_settings)
        [PublishTelemetry ''position'' ''payload-1'',
         PublishTelemetry ''battery'' ''payload-2'',
         OnConnect 0,
         PublishTelemetry ''position'' ''payload-3'']
      = \<lparr>cc_drone_id = ''drone-test'', cc_is_connected = False,
         message_buffer = [(''drone/drone-test/telemetry/position'', ''payload-1''),
                           (''drone/drone-test/telemetry/battery'', ''payload-2''),
                           (''drone/drone-test/telemetry/position'', ''payload-3'')],
         client_publish_calls = []\<rparr>"
  by (simp add: on_connect_def ReasonCodes_SUCCESS_def CloudConnector_init_def
      make_settings_def publish_telemetry_def buffer_message_def MAX_BUFFER_SIZE_def Let_def)

subsection \<open>Great-circle distance\<close>


lemma haversine_term_bounds:
  fixes p q l c :: real
  defines "h \<equiv> (sin ((q - p) * c / 2)) ^ 2 + cos (p * c) * cos (q * c) * (sin (l / 2)) ^ 2"
  shows "0 \<le> h" and "h \<le> 1"
proof -
  define A where "A = (sin ((q - p) * c / 2)) ^ 2"
  define B where "B = cos (p * c) * cos (q * c)"
  define s where "s = (sin (l / 2)) ^ 2"
  have h: "h = A + B * s" by (simp add: h_def A_def B_def s_def)
  have sin2: "(sin x) ^ 2 \<le> 1" for x :: real
    using sin_cos_squared_add [of x] zero_le_power2 [of "cos x"] by linarith
  have s: "0 \<le> s" "s \<le> 1"
    using sin2 [of "l / 2"] by (simp_all add: s_def)
  have A: "0 \<le> A" "A \<le> 1"
    using sin2 [of "(q - p) * c / 2"] by (simp_all add: A_def)
  have half: "A = (1 - cos ((q - p) * c)) / 2"
  proof -
    have "cos ((q - p) * c) = cos (2 * ((q - p) * c / 2))" by simp
    also have "\<dots> = 1 - 2 * (sin ((q - p) * c / 2)) ^ 2" by (rule cos_double_sin)
    finally show ?thesis by (simp add: A_def)
  qed
  have diff: "cos ((q - p) * c) = cos (q * c) * cos (p * c) + sin (q * c) * sin (p * c)"
    by (simp add: algebra_simps cos_diff)
  have sum: "cos ((q + p) * c) = cos (q * c) * cos (p * c) - sin (q * c) * sin (p * c)"
    by (simp add: algebra_simps cos_add)
  have AB: "A + B = (1 + cos ((q + p) * c)) / 2"
    unfolding half diff sum B_def by (simp add: field_simps)
  have "- 1 \<le> cos ((q + p) * c)" by (rule cos_ge_minus_one)
  then have lower: "0 \<le> (1 + cos ((q + p) * c)) / 2" by argo
  have "cos ((q + p) * c) \<le> 1" by (rule cos_le_one)
  then have upper: "(1 + cos ((q + p) * c)) / 2 \<le> 1" by argo
  from lower upper have AB_bounds: "0 \<le> A + B" "A + B \<le> 1"
    by (simp_all only: AB)
  have convex: "A + B * s = (1 - s) * A + s * (A + B)" by (simp add: algebra_simps)
  have rest: "0 \<le> 1 - s" using s by simp
  have "0 \<le> (1 - s) * A" by (rule mult_nonneg_nonneg [OF rest A(1)])
  moreover have "0 \<le> s * (A + B)" by (rule mult_nonneg_nonneg [OF s(1) AB_bounds(1)])
  ultimately have "0 \<le> (1 - s) * A + s * (A + B)" by (rule add_nonneg_nonneg)
  then show "0 \<le> h" by (simp only: h convex)
  have "(1 - s) * A \<le> (1 - s) * 1" by (rule mult_left_mono [OF A(2) rest])
  moreover have "s * (A + B) \<le> s * 1" by (rule mult_left_mono [OF AB_bounds(2) s(1)])
  ultimately have "(1 - s) * A + s * (A + B) \<le> 1" by simp
  then show "h \<le> 1" by (simp only: h convex)
qed

lemma haversine_distance_unfold:
  "haversine_distance latitude_1 longitude_1 latitude_2 longitude_2 =
     (let haversine = (sin ((latitude_2 - latitude_1) * DEGREES_TO_RADIANS / 2)) ^ 2
                      + cos (latitude_1 * DEGREES_TO_RADIANS) * cos (latitude_2 * DEGREES_TO_RADIANS)
                        * (sin ((longitude_2 - longitude_1) * DEGREES_TO_RADIANS / 2)) ^ 2
      in if haversine < 0 \<or> 1 < haversine then Inl ValueError
         else Inr (EARTH_RADIUS_METERS * (2 * atan2 (sqrt haversine) (sqrt (1 - haversine)))))"
  by (simp add: haversine_distance_def math_sqrt_def Let_def)

lemma haversine_distance_returns:
  "haversine_distance latitude_1 longitude_1 latitude_2 longitude_2 =
     Inr (EARTH_RADIUS_METERS * (2 * atan2
       (sqrt ((sin ((latitude_2 - latitude_1) * DEGREES_TO_RADIANS / 2)) ^ 2
              + cos (latitude_1 * DEGREES_TO_RADIANS) * cos (latitude_2 * DEGREES_TO_RADIANS)
                * (sin ((longitude_2 - longitude_1) * DEGREES_TO_RADIANS / 2)) ^ 2))
       (sqrt (1 - ((sin ((latitude_2 - latitude_1) * DEGREES_TO_RADIANS / 2)) ^ 2
              + cos (latitude_1 * DEGREES_TO_RADIANS) * cos (latitude_2 * DEGREES_TO_RADIANS)
                * (sin ((longitude_2 - longitude_1) * DEGREES_TO_RADIANS / 2)) ^ 2)))))"
proof -
  let ?h = "(sin ((latitude_2 - latitude_1) * DEGREES_TO_RADIANS / 2)) ^ 2
     + cos (latitude_1 * DEGREES_TO_RADIANS) * cos (latitude_2 * DEGREES_TO_RADIANS)
       * (sin ((longitude_2 - longitude_1) * DEGREES_TO_RADIANS / 2)) ^ 2"
  from haversine_term_bounds [of latitude_2 latitude_1 DEGREES_TO_RADIANS
      "(longitude_2 - longitude_1) * DEGREES_TO_RADIANS"]
  have "\<not> (?h < 0 \<or> 1 < ?h)" by (simp add: not_less)
  then show ?thesis
    unfolding haversine_distance_unfold Let_def by (simp only: if_False)
qed

lemma quarter_circle: "haversine_distance 0 0 0 90 = Inr (6371000 * (pi / 2))"
proof -
  have radians: "DEGREES_TO_RADIANS = pi / 180"
    by (simp add: DEGREES_TO_RADIANS_def)
  have angles: "(90 - 0) * (pi / 180) / 2 = pi / 4"
    by simp_all
  have half: "(sin ((0 - 0) * DEGREES_TO_RADIANS / 2)) ^ 2
       + cos (0 * DEGREES_TO_RADIANS) * cos (0 * DEGREES_TO_RADIANS)
         * (sin ((90 - 0) * DEGREES_TO_RADIANS / 2)) ^ 2 = 1 / 2"
    unfolding radians angles by (simp add: sin_45 power2_eq_square)
  have "sqrt (1 / 2) / sqrt (1 / 2) = (1 :: real)" by simp
  then have "atan2 (sqrt (1 / 2)) (sqrt (1 - 1 / 2)) = pi / 4"
    by (simp add: atan2_def arctan_one del: div_self)
  then show ?thesis
    unfolding haversine_distance_returns [of 0 0 0 90] half
    by (simp add: EARTH_RADIUS_METERS_def)
qed


subsection \<open>Mission executor: pause and abort during navigation\<close>

text \<open>
  The bound on the loops only cuts runs short: a run that returns under some bound
  returns the same under every larger bound.
\<close>

lemma poll_until_arrival_more_fuel:
  "poll_until_arrival fuel waypoint ex schedule = Some r
   \<Longrightarrow> poll_until_arrival (fuel + extra) waypoint ex schedule = Some r"
proof (induction fuel arbitrary: ex schedule)
  case 0
  then show ?case by simp
next
  case (Suc fuel)
  show ?case
  proof (cases "ex_state ex \<in> {PAUSED, ABORTED}")
    case True
    with Suc.prems show ?thesis by simp
  next
    case False
    obtain reply bridge1 where tel: "get_telemetry (ex_bridge ex) = (reply, bridge1)"
      by (cases "get_telemetry (ex_bridge ex)")
    obtain ex1 schedule1 where ext: "during_call (ex\<lparr>ex_bridge := bridge1\<rparr>) schedule = (ex1, schedule1)"
      by (cases "during_call (ex\<lparr>ex_bridge := bridge1\<rparr>) schedule")
    from Suc.prems False tel ext Suc.IH [of ex1 schedule1] show ?thesis
      by (auto split: sum.splits if_splits)
  qed
qed

lemma navigate_to_waypoint_more_fuel:
  "navigate_to_waypoint fuel waypoint ex schedule = Some r
   \<Longrightarrow> navigate_to_waypoint (fuel + extra) waypoint ex schedule = Some r"
  by (auto simp: navigate_to_waypoint_def poll_until_arrival_more_fuel split: prod.splits sum.splits)

lemma execute_loop_more_fuel:
  "execute_loop fuel segment ex schedule = Some r
   \<Longrightarrow> execute_loop (fuel + extra) segment ex schedule = Some r"
proof (induction fuel arbitrary: ex schedule)
  case 0
  then show ?case by simp
next
  case (Suc fuel)
  show ?case
  proof (cases "navigate_to_waypoint fuel (waypoints segment ! current_waypoint_index ex) ex schedule")
    case None
    with Suc.prems show ?thesis by (auto simp: Let_def split: if_splits)
  next
    case (Some step)
    obtain result ex1 schedule1 where step: "step = (result, ex1, schedule1)" by (cases step)
    from navigate_to_waypoint_more_fuel [OF Some [unfolded step], of extra]
    have more: "navigate_to_waypoint (fuel + extra) (waypoints segment ! current_waypoint_index ex) ex schedule
      = Some (result, ex1, schedule1)" .
    from Suc.prems Some step more
      Suc.IH [of "ex1\<lparr>current_waypoint_index := current_waypoint_index ex1 + 1\<rparr>" schedule1]
    show ?thesis
      by (auto simp: Let_def split: if_splits sum.splits)
  qed
qed

lemma execute_more_fuel:
  "execute fuel ex schedule = Some r \<Longrightarrow> execute (fuel + extra) ex schedule = Some r"
  by (auto simp: execute_def execute_loop_more_fuel split: sum.splits if_splits)

lemma far_away:
  assumes "tel_latitude current = 0" "tel_longitude current = 0"
  shows "has_arrived (waypoint_at 0 90) current 2 = Inr False"
proof -
  have "\<not> 6371000 * (pi / 2) \<le> (2 :: real)"
    using pi_ge_two by simp
  then show ?thesis
    using assms by (simp add: has_arrived_def waypoint_at_def quarter_circle)
qed

lemma first_reading:
  "get_telemetry
     \<lparr>connection_string = uri, baud_rate = baud,
      connection = Some \<lparr>incoming = telemetry_at_origin, mode_mapping = modes, sent = out\<rparr>,
      bridge_state = FLYING\<rparr>
   = (Inr \<lparr>tel_latitude = 0, tel_longitude = 0, tel_altitude = 50, tel_heading = 180,
           tel_ground_speed = 5, tel_vertical_speed = - 1, tel_battery_voltage = 12.6,
           tel_battery_remaining = 80, tel_gps_fix_type = 3, tel_satellites_visible = 12\<rparr>,
      \<lparr>connection_string = uri, baud_rate = baud,
       connection = Some \<lparr>incoming = [], mode_mapping = modes, sent = out\<rparr>,
       bridge_state = FLYING\<rparr>)"
  by (simp add: get_telemetry_def require_connection_def get_connection_def recv_match_def
      telemetry_at_origin_def new_TelemetryData_def COORDINATE_SCALE_def SPEED_SCALE_def
      HEADING_SCALE_def VOLTAGE_SCALE_def)

text \<open>
  Claim C1 does not hold of \<open>execute\<close>. A segment of two waypoints is loaded (state
  \<open>EXECUTING\<close>, waypoint index 0); the vehicle is a quarter of the globe away from the first one. While the first telemetry
  read of the run is blocked, another thread calls \<open>pause\<close>. The reading does not show
  arrival; the next iteration of the polling loop sees \<open>PAUSED\<close> and returns; then
  \<open>execute\<close> increments the waypoint index all the same and returns with index 1,
  although waypoint 0 was never reached. With a segment of one waypoint and an
  \<open>abort\<close> at the same moment, the loop over the waypoints ends and the state is
  overwritten with \<open>COMPLETED\<close>. (The loop bound 3 is enough for both runs; by
  \<open>execute_more_fuel\<close> any larger bound gives the same.)
\<close>

theorem C1_interrupted_navigation_advances_index:
  "ex_state (loaded (make_connected_bridge telemetry_at_origin)
              [waypoint_at 0 90, waypoint_at 0 90.001]) = EXECUTING
   \<and> current_waypoint_index (loaded (make_connected_bridge telemetry_at_origin)
              [waypoint_at 0 90, waypoint_at 0 90.001]) = 0
   \<and> map_option (\<lambda>(result, ex, schedule). (result, ex_state ex, current_waypoint_index ex))
     (execute 3 (loaded (make_connected_bridge telemetry_at_origin)
                   [waypoint_at 0 90, waypoint_at 0 90.001]) [PauseCall])
   = Some (Inr (), PAUSED, 1)
   \<and> map_option (\<lambda>(result, ex, schedule). (result, ex_state ex, current_waypoint_index ex))
     (execute 3 (loaded (make_connected_bridge telemetry_at_origin) [waypoint_at 0 90])
        [AbortCall])
   = Some (Inr (), COMPLETED, 1)"
  by (simp add: execute_def loaded_def load_segment_def MissionExecutor_init_def
      make_segment_def require_segment_def numeral_3_eq_3 navigate_to_waypoint_def goto_def
      make_connected_bridge_def make_bridge_def MavlinkBridge_init_def require_connection_def
      get_connection_def send_def first_reading pause_def abort_def set_mode_def far_away
      DEFAULT_ARRIVAL_THRESHOLD_METERS_def Let_def)

subsection \<open>MAVLink bridge\<close>

text \<open>
  Claim C8. While the bridge is \<open>DISCONNECTED\<close>, each of \<open>get_telemetry\<close>, \<open>arm\<close>,
  \<open>disarm\<close>, \<open>set_mode\<close>, \<open>goto\<close>, \<open>takeoff\<close>, \<open>land\<close> and \<open>send_command\<close>
  raises a connection error, for all arguments, and leaves every field of the bridge
  (its connection state included) as it was.
\<close>

theorem C8_disconnected_operations_raise:
  assumes "bridge_state self = DISCONNECTED"
  shows "get_telemetry self = (Inl ConnectionError, self)
       \<and> arm self = (Inl ConnectionError, self)
       \<and> disarm self = (Inl ConnectionError, self)
       \<and> set_mode self mode = (Inl ConnectionError, self)
       \<and> goto self latitude longitude altitude = (Inl ConnectionError, self)
       \<and> takeoff self takeoff_altitude = (Inl ConnectionError, self)
       \<and> land self = (Inl ConnectionError, self)
       \<and> send_command self command = (Inl ConnectionError, self)"
  using assms
  by (simp add: get_telemetry_def arm_def disarm_def set_mode_def goto_def takeoff_def
      land_def send_command_def require_connection_def)

theorem C8_disconnected_operations_raise_witness:
  "bridge_state make_bridge = DISCONNECTED
   \<and> get_telemetry make_bridge = (Inl ConnectionError, make_bridge)
   \<and> arm make_bridge = (Inl ConnectionError, make_bridge)
   \<and> disarm make_bridge = (Inl ConnectionError, make_bridge)
   \<and> set_mode make_bridge ''GUIDED'' = (Inl ConnectionError, make_bridge)
   \<and> goto make_bridge 40.0 (- 74.0) 50.0 = (Inl ConnectionError, make_bridge)
   \<and> takeoff make_bridge 10.0 = (Inl ConnectionError, make_bridge)
   \<and> land make_bridge = (Inl ConnectionError, make_bridge)
   \<and> send_command make_bridge
        \<lparr>command_type = ''ARM'', parameters = Map.empty, cmd_target_system = 1,
         cmd_target_component = 1\<rparr> = (Inl ConnectionError, make_bridge)
   \<and> bridge_state (disconnect (make_connected_bridge [])) = DISCONNECTED
   \<and> get_telemetry (disconnect (make_connected_bridge []))
       = (Inl ConnectionError, disconnect (make_connected_bridge []))"
proof -
  have fresh: "bridge_state make_bridge = DISCONNECTED"
    by (simp add: make_bridge_def MavlinkBridge_init_def)
  have dropped: "bridge_state (disconnect (make_connected_bridge [])) = DISCONNECTED"
    by (simp add: disconnect_def Let_def)
  from C8_disconnected_operations_raise [OF fresh, of "''GUIDED''" "40.0" "- 74.0" "50.0" "10.0"
      "\<lparr>command_type = ''ARM'', parameters = Map.empty, cmd_target_system = 1,
        cmd_target_component = 1\<rparr>"]
    C8_disconnected_operations_raise [OF dropped]
    fresh dropped
  show ?thesis by simp
qed

end
